theory Spec2Isabelle
  imports
    Complex_Main
    "HOL-Library.AList"
    "HOL-Library.Char_ord"
    "HOL-Library.List_Lexorder"
    "HOL-Library.Log_Nat"
    "HOL-Library.Multiset"
    "HOL-Library.Product_Lexorder"
begin

section \<open>Python values used by app.py\<close>

text \<open>
  A Python number is given by its exact value, a rational: an int by itself, a float by
  the binary64 number it holds (the float written \<open>2.675\<close> is \<open>fl (2675 / 1000)\<close>, a
  little below 2.675). A float operation rounds its exact result to binary64 (\<open>fl\<close>
  below); on ints below \<open>2^53\<close> it is exact, as int arithmetic is. Clock readings
  (\<open>time.time()\<close>) are given by their exact values too, in seconds since the epoch; the
  sums and differences the cache takes of them are left exact, as they are in binary64
  for readings between \<open>2^30\<close> and \<open>2^31\<close> seconds (2004 to 2038) and a ttl in whole
  seconds.
\<close>

text \<open>
  A \<open>datetime\<close> in UTC. The calendar date is kept as its proleptic Gregorian day number
  (\<open>date.toordinal()\<close>), which is what CPython itself computes with when a
  \<open>timedelta\<close> is added.
\<close>

record datetime =
  day_ordinal :: int
  hour :: int
  minute :: int
  second :: int
  microsecond :: int

text \<open>
  JSON-like values: what the handlers cache and hand to \<open>jsonify\<close>. A dict is an
  association list in insertion order. Three constructors stand for text rendered from a
  clock value, whose rendering is not modelled: \<open>JDate n\<close> is \<open>strftime("%Y-%m-%d")\<close> of day
  number \<open>n\<close>, \<open>JIso d\<close> is \<open>d.isoformat()\<close>, and \<open>JStamp t\<close> is
  \<open>datetime.fromtimestamp(t, tz=timezone.utc).isoformat()\<close>.
\<close>

datatype json =
    JNull
  | JNum rat
  | JStr string
  | JArr "json list"
  | JObj "(string \<times> json) list"
  | JDate int
  | JIso datetime
  | JStamp rat

type_synonym jobj = "(string \<times> json) list"

text \<open>\<open>d.get(k, default)\<close> and \<open>d.keys()\<close> on a dict.\<close>

definition dict_get :: "(string \<times> 'v) list \<Rightarrow> string \<Rightarrow> 'v \<Rightarrow> 'v" where
  "dict_get d k dflt = (case map_of d k of Some v \<Rightarrow> v | None \<Rightarrow> dflt)"

definition dict_keys :: "(string \<times> 'v) list \<Rightarrow> string list" where
  "dict_keys d = map fst d"

text \<open>\<open>int(x)\<close> on a float truncates towards zero.\<close>

definition py_int :: "rat \<Rightarrow> int" where
  "py_int x = (if 0 \<le> x then \<lfloor>x\<rfloor> else \<lceil>x\<rceil>)"

text \<open>
  \<open>round(x)\<close> rounds the exact value of \<open>x\<close> half to even and returns an int.
\<close>

definition round_half_even :: "rat \<Rightarrow> int" where
  "round_half_even x =
     (let f = \<lfloor>x\<rfloor>; d = x - of_int f in
      if d < 1 / 2 then f
      else if 1 / 2 < d then f + 1
      else if even f then f else f + 1)"

text \<open>
  Binary64: \<open>binade x\<close> is the exponent \<open>e\<close> with \<open>2^e \<le> |x| < 2^(e+1)\<close>, and \<open>fl x\<close> is
  the number with a 53-bit significand nearest to \<open>x\<close>, ties to the even significand.
  The exponent is not bounded: overflow to infinity and the subnormal numbers are not
  modelled, nor are \<open>inf\<close> and \<open>nan\<close>.
\<close>

definition pow2 :: "int \<Rightarrow> rat" where
  "pow2 k = (if 0 \<le> k then 2 ^ nat k else 1 / 2 ^ nat (- k))"

definition binade :: "rat \<Rightarrow> int" where
  "binade x =
     (case quotient_of \<bar>x\<bar> of (a, b) \<Rightarrow>
        let e0 = bitlen a - bitlen b in if pow2 e0 \<le> \<bar>x\<bar> then e0 else e0 - 1)"

definition fl :: "rat \<Rightarrow> rat" where
  "fl x = (if x = 0 then 0
           else of_int (round_half_even (x * pow2 (52 - binade x))) * pow2 (binade x - 52))"

text \<open>
  \<open>round(x, n)\<close>: the exact value of \<open>x\<close> is rounded half to even at \<open>n\<close> decimals, and
  the float nearest to that decimal is returned.
\<close>

definition py_round :: "nat \<Rightarrow> rat \<Rightarrow> rat" where
  "py_round n x = fl (of_int (round_half_even (x * 10 ^ n)) / 10 ^ n)"

text \<open>
  \<open>sum(xs)\<close> adds from the left, starting at 0, rounding after each addition (from
  Python 3.12 on \<open>sum\<close> also compensates the rounding errors of float addends, which is
  not modelled).
\<close>

definition py_sum :: "rat list \<Rightarrow> rat" where
  "py_sum xs = foldl (\<lambda>acc x. fl (acc + x)) 0 xs"

text \<open>
  \<open>sorted(xs, key=f)\<close> is a stable sort. With \<open>reverse=True\<close> it is a stable sort in
  descending order of the key: elements with equal keys keep their original order.
\<close>

definition py_sorted :: "('a \<Rightarrow> 'k::linorder) \<Rightarrow> 'a list \<Rightarrow> 'a list" where
  "py_sorted f xs = sort_key f xs"

definition py_sorted_reverse :: "('a \<Rightarrow> 'k::linorder) \<Rightarrow> 'a list \<Rightarrow> 'a list" where
  "py_sorted_reverse f xs = rev (sort_key f (rev xs))"

text \<open>
  \<open>repr\<close> of a \<open>str\<close>, on byte strings: single quotes unless the text has a single and
  no double quote; the quote and the backslash are escaped, control characters are
  written \<open>\t \n \r \xNN\<close>. Bytes from 0x80 on are kept, as \<open>repr\<close> keeps printable
  non-ASCII text; the escapes \<open>repr\<close> writes for the non-ASCII characters that are not
  printable are not modelled.
\<close>

definition hex_digit :: "nat \<Rightarrow> char" where
  "hex_digit n = ''0123456789abcdef'' ! (n mod 16)"

definition repr_char :: "char \<Rightarrow> char \<Rightarrow> string" where
  "repr_char q ch =
     (if ch = q \<or> ch = CHR 0x5C then [CHR 0x5C, ch]
      else if ch = CHR 0x09 then [CHR 0x5C, CHR ''t'']
      else if ch = CHR 0x0A then [CHR 0x5C, CHR ''n'']
      else if ch = CHR 0x0D then [CHR 0x5C, CHR ''r'']
      else if (of_char ch :: nat) < 32 \<or> ch = CHR 0x7F
        then [CHR 0x5C, CHR ''x'', hex_digit (of_char ch div 16), hex_digit (of_char ch mod 16)]
      else [ch])"

definition repr_quote :: "string \<Rightarrow> char" where
  "repr_quote s = (if CHR 0x27 \<in> set s \<and> CHR 0x22 \<notin> set s then CHR 0x22 else CHR 0x27)"

definition py_repr :: "string \<Rightarrow> string" where
  "py_repr s = repr_quote s # concat (map (repr_char (repr_quote s)) s) @ [repr_quote s]"

text \<open>\<open>sep.join(xs)\<close>, and \<open>str\<close> of a list of pairs of strings.\<close>

fun join :: "string \<Rightarrow> string list \<Rightarrow> string" where
  "join sep [] = []"
| "join sep [x] = x"
| "join sep (x # y # ys) = x @ sep @ join sep (y # ys)"

definition str_pair :: "string \<times> string \<Rightarrow> string" where
  "str_pair kv = ''('' @ py_repr (fst kv) @ '', '' @ py_repr (snd kv) @ '')''"

definition str_items :: "(string \<times> string) list \<Rightarrow> string" where
  "str_items items = ''['' @ join '', '' (map str_pair items) @ '']''"

text \<open>Exceptions, each with the text \<open>str(e)\<close> gives.\<close>

datatype exn =
    HTTPError int string
  | RequestException string
  | KeyError string
  | ValueError string
  | OverflowError string
  | ZeroDivisionError string

fun str_exn :: "exn \<Rightarrow> string" where
  "str_exn (HTTPError code msg) = msg"
| "str_exn (RequestException msg) = msg"
| "str_exn (KeyError k) = py_repr k"
| "str_exn (ValueError msg) = msg"
| "str_exn (OverflowError msg) = msg"
| "str_exn (ZeroDivisionError msg) = msg"

text \<open>\<open>a / b\<close> raises on a zero divisor, and rounds the quotient otherwise.\<close>

definition py_div :: "rat \<Rightarrow> rat \<Rightarrow> exn + rat" where
  "py_div a b =
     (if b = 0 then Inl (ZeroDivisionError ''division by zero'') else Inr (fl (a / b)))"

section \<open>In-memory cache\<close>

text \<open>
  The global \<open>_cache\<close> dict: key to \<open>{"data", "stored", "expires"}\<close>. The functions
  take the cache and the clock readings they make, and return what they return together
  with the cache they leave behind. Logging is not modelled.
\<close>

record 'v entry =
  data :: 'v
  stored :: rat
  expires :: rat

type_synonym 'v cache = "string \<rightharpoonup> 'v entry"

text \<open>
  \<open>cache_get\<close>: \<open>entry = _cache.get(key)\<close>; an entry is a three-key dict, so
  \<open>if entry and ...\<close> tests presence. \<open>None\<close> is Python's \<open>None\<close>.
\<close>

definition cache_get :: "'v cache \<Rightarrow> rat \<Rightarrow> string \<Rightarrow> 'v option \<times> 'v cache" where
  "cache_get c now key =
     (case c key of
        Some e \<Rightarrow> if now < expires e then (Some (data e), c) else (None, c)
      | None \<Rightarrow> (None, c))"

text \<open>
  \<open>cache_set\<close> reads the clock twice: \<open>t1\<close> for \<open>"stored"\<close>, then \<open>t2\<close> for
  \<open>"expires"\<close>.
\<close>

definition cache_set :: "'v cache \<Rightarrow> rat \<Rightarrow> rat \<Rightarrow> string \<Rightarrow> 'v \<Rightarrow> int \<Rightarrow> 'v cache" where
  "cache_set c t1 t2 key d ttl =
     c(key \<mapsto> \<lparr>data = d, stored = t1, expires = t2 + of_int ttl\<rparr>)"

text \<open>\<open>cache_stats\<close>: one stats dict per entry of \<open>_cache.items()\<close>.\<close>

definition entry_stats :: "rat \<Rightarrow> 'v entry \<Rightarrow> jobj" where
  "entry_stats now e =
     [(''age_seconds'', JNum (of_int (py_int (now - stored e)))),
      (''expires_in'', JNum (of_int (max 0 (py_int (expires e - now))))),
      (''cached_at_utc'', JStamp (stored e))]"

definition cache_stats :: "'v cache \<Rightarrow> rat \<Rightarrow> (string \<rightharpoonup> jobj)" where
  "cache_stats c now = (\<lambda>key. case c key of None \<Rightarrow> None | Some e \<Rightarrow> Some (entry_stats now e))"

section \<open>Settlement clock\<close>

text \<open>
  \<open>d.replace(hour=..., minute=..., second=..., microsecond=...)\<close>: a keyword that is not
  given keeps the field; the new time fields are range-checked in this order.
\<close>

definition replace_fields ::
  "datetime \<Rightarrow> int option \<Rightarrow> int option \<Rightarrow> int option \<Rightarrow> int option \<Rightarrow> exn + datetime" where
  "replace_fields d h m s us =
     (let h' = (case h of None \<Rightarrow> hour d | Some x \<Rightarrow> x);
          m' = (case m of None \<Rightarrow> minute d | Some x \<Rightarrow> x);
          s' = (case s of None \<Rightarrow> second d | Some x \<Rightarrow> x);
          us' = (case us of None \<Rightarrow> microsecond d | Some x \<Rightarrow> x)
      in if h' < 0 \<or> 23 < h' then Inl (ValueError ''hour must be in 0..23'')
         else if m' < 0 \<or> 59 < m' then Inl (ValueError ''minute must be in 0..59'')
         else if s' < 0 \<or> 59 < s' then Inl (ValueError ''second must be in 0..59'')
         else if us' < 0 \<or> 999999 < us' then Inl (ValueError ''microsecond must be in 0..999999'')
         else Inr (d\<lparr>hour := h', minute := m', second := s', microsecond := us'\<rparr>))"

text \<open>
  \<open>d + timedelta(minutes=n)\<close>: the seconds of the day carry into the day number, and a
  day number outside \<open>1..MAXORDINAL\<close> (31 December 9999) raises \<open>OverflowError\<close>.
\<close>

definition MAXORDINAL :: int where
  "MAXORDINAL = 3652059"

definition add_minutes :: "datetime \<Rightarrow> int \<Rightarrow> exn + datetime" where
  "add_minutes d n =
     (let secs = hour d * 3600 + minute d * 60 + second d + n * 60;
          days = day_ordinal d + secs div 86400;
          s = secs mod 86400
      in if 0 < days \<and> days \<le> MAXORDINAL
         then Inr \<lparr>day_ordinal = days, hour = s div 3600, minute = s mod 3600 div 60,
                   second = s mod 60, microsecond = microsecond d\<rparr>
         else Inl (OverflowError ''date value out of range''))"

text \<open>
  The dict \<open>current_settlement_period\<close> returns, before its dates are rendered as text:
  \<open>settlement_date\<close> is the day number of \<open>now\<close>, the two period bounds are datetimes.
\<close>

record sp_info =
  settlement_date :: int
  settlement_period :: int
  period_start_utc :: datetime
  period_end_utc :: datetime
  periods_per_day :: int
  next_sp :: int

text \<open>\<open>current_settlement_period\<close>, as a function of the clock reading \<open>now\<close>.\<close>

definition current_settlement_period :: "datetime \<Rightarrow> exn + sp_info" where
  "current_settlement_period now =
     (let minutes = hour now * 60 + minute now;
          sp = minutes div 30 + 1
      in case replace_fields now None (Some ((sp - 1) mod 2 * 30)) (Some 0) (Some 0) of
           Inl e \<Rightarrow> Inl e
         | Inr sp_start0 \<Rightarrow>
             (case (if 60 \<le> (sp - 1) * 30
                    then replace_fields sp_start0 (Some ((sp - 1) * 30 div 60))
                           (Some ((sp - 1) * 30 mod 60)) None None
                    else Inr sp_start0) of
                Inl e \<Rightarrow> Inl e
              | Inr sp_start \<Rightarrow>
                  (case add_minutes sp_start 30 of
                     Inl e \<Rightarrow> Inl e
                   | Inr sp_end \<Rightarrow>
                       Inr \<lparr>settlement_date = day_ordinal now,
                            settlement_period = sp,
                            period_start_utc = sp_start,
                            period_end_utc = sp_end,
                            periods_per_day = 48,
                            next_sp = sp mod 48 + 1\<rparr>)))"

definition sp_json :: "sp_info \<Rightarrow> json" where
  "sp_json r =
     JObj [(''settlement_date'', JDate (settlement_date r)),
           (''settlement_period'', JNum (of_int (settlement_period r))),
           (''period_start_utc'', JIso (period_start_utc r)),
           (''period_end_utc'', JIso (period_end_utc r)),
           (''periods_per_day'', JNum (of_int (periods_per_day r))),
           (''next_sp'', JNum (of_int (next_sp r)))]"

text \<open>
  What \<open>datetime.now(timezone.utc)\<close> can return, and the instant a datetime denotes, in
  microseconds since the start of day number 0.
\<close>

definition valid_datetime :: "datetime \<Rightarrow> bool" where
  "valid_datetime d \<longleftrightarrow>
     1 \<le> day_ordinal d \<and> day_ordinal d \<le> MAXORDINAL \<and>
     0 \<le> hour d \<and> hour d < 24 \<and> 0 \<le> minute d \<and> minute d < 60 \<and>
     0 \<le> second d \<and> second d < 60 \<and> 0 \<le> microsecond d \<and> microsecond d < 1000000"

definition micros_of :: "datetime \<Rightarrow> int" where
  "micros_of d =
     (((day_ordinal d * 24 + hour d) * 60 + minute d) * 60 + second d) * 1000000 + microsecond d"

section \<open>Upstream client\<close>

definition ELEXON_BASE :: string where
  "ELEXON_BASE = ''https://data.elexon.co.uk/bmrs/api/v1''"

definition CACHE_TTL :: "(string \<times> int) list" where
  "CACHE_TTL =
     [(''generation'', 600), (''demand'', 600), (''price'', 600), (''imbalance'', 600),
      (''frequency'', 60), (''default'', 300)]"

text \<open>
  \<open>fetch_elexon\<close>. Its first argument stands for the upstream: \<open>requests.get(url,
  params=params, timeout=15)\<close>, then \<open>raise_for_status()\<close> and \<open>.json()\<close>, giving the parsed
  body or the exception raised. \<open>params\<close> is \<open>None\<close> when the caller passes none.
\<close>

definition fetch_elexon ::
  "(string \<Rightarrow> (string \<times> string) list \<Rightarrow> exn + 'r) \<Rightarrow> string \<Rightarrow> (string \<times> string) list option
     \<Rightarrow> exn + 'r" where
  "fetch_elexon http_get path params =
     (let url = ELEXON_BASE @ ''/'' @ dropWhile (\<lambda>ch. ch = CHR ''/'') path;
          params' = AList.update ''format'' ''json'' (case params of None \<Rightarrow> [] | Some p \<Rightarrow> p)
      in http_get url params')"

section \<open>Requests, responses and the proxy decorator\<close>

text \<open>
  What a view function reads besides the cache: the query parameters (\<open>request.args\<close>,
  looked up by name) and the clock, as the texts \<open>today_str()\<close>, \<open>yesterday_str()\<close> and
  the \<open>%Y-%m-%dT%H:%M:%SZ\<close> rendering of one hour ago give. A response is the dict
  handed to \<open>jsonify\<close> and the HTTP status (200 when the view returns no status).
\<close>

record request =
  args :: "(string \<times> string) list"
  today :: string
  yesterday :: string
  hour_ago :: string

type_synonym response = "jobj \<times> nat"

definition dict_item :: "(string \<times> 'v) list \<Rightarrow> string \<Rightarrow> exn + 'v" where
  "dict_item d k = (case map_of d k of None \<Rightarrow> Inl (KeyError k) | Some v \<Rightarrow> Inr v)"

text \<open>\<open>if cached:\<close> lets a cached dict through only when it is not empty.\<close>

definition nonempty :: "jobj option \<Rightarrow> jobj option" where
  "nonempty cached = (case cached of None \<Rightarrow> None | Some d \<Rightarrow> if d = [] then None else Some d)"

text \<open>
  \<open>proxy_route(cache_key_fn, ttl_key)(fn)\<close>: the wrapper around a view that returns
  \<open>(elexon_path, params)\<close>. The upstream body is a JSON object. \<open>now\<close> is the clock
  reading of \<open>cache_get\<close>, \<open>t1\<close> and \<open>t2\<close> are those of \<open>cache_set\<close>. An exception that
  is neither an \<open>HTTPError\<close> nor another \<open>RequestException\<close> leaves the wrapper (\<open>Inl\<close>).
\<close>

definition proxy_route ::
  "(request \<Rightarrow> string) \<Rightarrow> string \<Rightarrow> (request \<Rightarrow> string \<times> (string \<times> string) list) \<Rightarrow>
   (string \<Rightarrow> (string \<times> string) list \<Rightarrow> exn + jobj) \<Rightarrow> request \<Rightarrow> rat \<Rightarrow> rat \<Rightarrow> rat \<Rightarrow>
   jobj cache \<Rightarrow> (exn + response) \<times> jobj cache" where
  "proxy_route cache_key_fn ttl_key fn http_get rq now t1 t2 c0 =
     (let cache_key = cache_key_fn rq in
      case cache_get c0 now cache_key of
        (Some d, c) \<Rightarrow>
          (Inr (AList.update ''_key'' (JStr cache_key) (AList.update ''_cache'' (JStr ''hit'') d),
                200), c)
      | (None, c) \<Rightarrow>
          (case fn rq of (path, params) \<Rightarrow>
            (case fetch_elexon http_get path (Some params) of
               Inr d \<Rightarrow>
                 (case dict_item CACHE_TTL ''default'' of
                    Inl e \<Rightarrow> (Inl e, c)
                  | Inr dflt \<Rightarrow>
                      (let ttl = dict_get CACHE_TTL ttl_key dflt;
                           c' = cache_set c t1 t2 cache_key d ttl
                       in (Inr (AList.update ''_key'' (JStr cache_key)
                                  (AList.update ''_cache'' (JStr ''miss'') d), 200), c')))
             | Inl (HTTPError code msg) \<Rightarrow>
                 (Inr ([(''error'', JStr msg), (''status'', JNum (of_int code))], 502), c)
             | Inl (RequestException msg) \<Rightarrow>
                 (Inr ([(''error'', JStr ''Upstream unavailable''), (''detail'', JStr msg)], 503), c)
             | Inl e \<Rightarrow> (Inl e, c))))"

text \<open>
  The five decorated routes: each is its cache key function (the \<open>lambda\<close> handed to the
  decorator), its ttl key and its view.
\<close>

definition generation_key :: "request \<Rightarrow> string" where
  "generation_key rq =
     ''generation:'' @ dict_get (args rq) ''date'' (today rq) @ '':'' @
       dict_get (args rq) ''date_from'' (yesterday rq)"

definition demand_key :: "request \<Rightarrow> string" where
  "demand_key rq = ''demand:'' @ dict_get (args rq) ''date'' (today rq)"

definition price_key :: "request \<Rightarrow> string" where
  "price_key rq = ''price:'' @ dict_get (args rq) ''date'' (today rq)"

definition imbalance_key :: "request \<Rightarrow> string" where
  "imbalance_key rq = ''imbalance:'' @ dict_get (args rq) ''date'' (today rq)"

definition frequency_key :: "request \<Rightarrow> string" where
  "frequency_key rq = ''frequency:latest''"

definition generation where
  "generation =
     proxy_route
       generation_key
       ''generation''
       (\<lambda>rq. let date_to = dict_get (args rq) ''date'' (today rq);
                  date_from = dict_get (args rq) ''date_from'' (yesterday rq)
              in (''generation/outturn/halfHourly'',
                  [(''settlementDateFrom'', date_from), (''settlementDateTo'', date_to)]))"

definition demand where
  "demand =
     proxy_route
       demand_key
       ''demand''
       (\<lambda>rq. let date = dict_get (args rq) ''date'' (today rq)
              in (''demand/outturn'',
                  [(''settlementDateFrom'', date), (''settlementDateTo'', date)]))"

definition price where
  "price =
     proxy_route
       price_key
       ''price''
       (\<lambda>rq. let date = dict_get (args rq) ''date'' (today rq)
              in (''balancing/pricing/market-index'', [(''settlementDate'', date)]))"

definition imbalance where
  "imbalance =
     proxy_route
       imbalance_key
       ''imbalance''
       (\<lambda>rq. let date = dict_get (args rq) ''date'' (today rq)
              in (''datasets/IMBALNGC'',
                  [(''settlementDateFrom'', date), (''settlementDateTo'', date)]))"

definition frequency where
  "frequency =
     proxy_route
       frequency_key
       ''frequency''
       (\<lambda>rq. (''datasets/FREQ'', [(''publishDateTimeFrom'', hour_ago rq)]))"

section \<open>Upstream records\<close>

text \<open>
  The derived endpoints read the upstream body as a dict whose \<open>"data"\<close> key, when
  present, holds a list of records. A record is a dict with the keys below, each of the
  upstream's type and each possibly absent (\<open>None\<close>); for \<open>price\<close>, \<open>None\<close> also stands
  for a JSON \<open>null\<close>. The body itself is given as the value under \<open>"data"\<close>, \<open>None\<close> when
  the key is absent.
\<close>

record urec =
  u_settlementPeriod :: "int option"
  u_fuelType :: "string option"
  u_generation :: "rat option"
  u_quantity :: "rat option"
  u_initialDemandOutturn :: "rat option"
  u_demand :: "rat option"
  u_price :: "rat option"
  u_imbalance :: "rat option"
  u_indicatedImbalance :: "rat option"
  u_value :: "rat option"
  u_publishTime :: "string option"
  u_frequency :: "rat option"

type_synonym uresp = "urec list option"

text \<open>\<open>raw.get("data", [])\<close>.\<close>

definition data_of :: "uresp \<Rightarrow> urec list" where
  "data_of raw = (case raw of None \<Rightarrow> [] | Some ds \<Rightarrow> ds)"

text \<open>\<open>d.get("generation", d.get("quantity", 0))\<close>.\<close>

definition output_of :: "urec \<Rightarrow> rat" where
  "output_of d =
     (case u_generation d of Some g \<Rightarrow> g
      | None \<Rightarrow> (case u_quantity d of Some q \<Rightarrow> q | None \<Rightarrow> 0))"

text \<open>
  \<open>d["settlementPeriod"] for d in data\<close>: the first record without the key raises
  \<open>KeyError\<close>.
\<close>

fun periods :: "urec list \<Rightarrow> exn + int list" where
  "periods [] = Inr []"
| "periods (d # ds) =
     (case u_settlementPeriod d of
        None \<Rightarrow> Inl (KeyError ''settlementPeriod'')
      | Some n \<Rightarrow> (case periods ds of Inl e \<Rightarrow> Inl e | Inr ns \<Rightarrow> Inr (n # ns)))"

fun py_max :: "int list \<Rightarrow> exn + int" where
  "py_max [] = Inl (ValueError ''max() iterable argument is empty'')"
| "py_max (x # xs) = Inr (fold max xs x)"

text \<open>
  The three lines shared by \<open>generation_latest\<close>, \<open>fuel_mix_latest\<close> and \<open>summary\<close>:
  \<open>max_sp\<close>, the records of that period (\<open>latest\<close>) and the sum of their output
  (\<open>total\<close>).
\<close>

definition latest_snapshot :: "urec list \<Rightarrow> exn + int \<times> urec list \<times> rat" where
  "latest_snapshot ds =
     (case periods ds of
        Inl e \<Rightarrow> Inl e
      | Inr sps \<Rightarrow>
          (case py_max sps of
             Inl e \<Rightarrow> Inl e
           | Inr max_sp \<Rightarrow>
               (let latest = map snd (filter (\<lambda>p. fst p = max_sp) (zip sps ds));
                    tot = py_sum (map output_of latest)
                in Inr (max_sp, latest, tot))))"

text \<open>
  The dict comprehension \<open>{d["fuelType"]: round(output) for d in latest if
  d.get("fuelType")}\<close>: a later record of the same fuel type overwrites the value.
\<close>

definition fuels_dict :: "urec list \<Rightarrow> (string \<times> int) list" where
  "fuels_dict latest =
     foldl (\<lambda>acc d. case u_fuelType d of
                       None \<Rightarrow> acc
                     | Some ft \<Rightarrow> if ft = [] then acc
                                  else AList.update ft (round_half_even (output_of d)) acc)
       [] latest"

definition fuels_json :: "(string \<times> int) list \<Rightarrow> json" where
  "fuels_json fuels = JObj (map (\<lambda>kv. (fst kv, JNum (of_int (snd kv)))) fuels)"

text \<open>\<open>round(x / total * 100, 1) if total else 0\<close>.\<close>

definition pct :: "rat \<Rightarrow> rat \<Rightarrow> exn + rat" where
  "pct x tot =
     (if tot = 0 then Inr 0
      else (case py_div x tot of
              Inl e \<Rightarrow> Inl e
            | Inr q \<Rightarrow> Inr (py_round 1 (fl (q * 100)))))"

section \<open>Latest generation\<close>

text \<open>
  The \<open>try\<close> block of \<open>generation_latest\<close>: the response and the cache it leaves, or the
  exception raised inside it.
\<close>

definition generation_latest_try ::
  "(string \<Rightarrow> (string \<times> string) list \<Rightarrow> exn + uresp) \<Rightarrow> request \<Rightarrow> rat \<Rightarrow> rat \<Rightarrow>
   jobj cache \<Rightarrow> exn + response \<times> jobj cache" where
  "generation_latest_try http_get rq t1 t2 c =
     (case fetch_elexon http_get ''generation/outturn/halfHourly''
             (Some [(''settlementDateFrom'', today rq), (''settlementDateTo'', today rq)]) of
        Inl e \<Rightarrow> Inl e
      | Inr raw \<Rightarrow>
          (let ds = data_of raw in
           if ds = [] then Inr (([(''error'', JStr ''No data available'')], 404), c)
           else
             (case latest_snapshot ds of
                Inl e \<Rightarrow> Inl e
              | Inr (max_sp, latest, tot) \<Rightarrow>
                  (let result =
                         [(''settlement_date'', JStr (today rq)),
                          (''settlement_period'', JNum (of_int max_sp)),
                          (''total_mw'', JNum (of_int (round_half_even tot))),
                          (''fuels'', fuels_json (fuels_dict latest))]
                   in case dict_item CACHE_TTL ''generation'' of
                        Inl e \<Rightarrow> Inl e
                      | Inr ttl \<Rightarrow>
                          Inr ((AList.update ''_cache'' (JStr ''miss'') result, 200),
                               cache_set c t1 t2 ''generation_latest'' result ttl)))))"

definition generation_latest ::
  "(string \<Rightarrow> (string \<times> string) list \<Rightarrow> exn + uresp) \<Rightarrow> request \<Rightarrow> rat \<Rightarrow> rat \<Rightarrow> rat \<Rightarrow>
   jobj cache \<Rightarrow> response \<times> jobj cache" where
  "generation_latest http_get rq now t1 t2 c0 =
     (case cache_get c0 now ''generation_latest'' of (cached, c) \<Rightarrow>
        (case nonempty cached of
           Some d \<Rightarrow> ((AList.update ''_cache'' (JStr ''hit'') d, 200), c)
         | None \<Rightarrow>
             (case generation_latest_try http_get rq t1 t2 c of
                Inr r \<Rightarrow> r
              | Inl e \<Rightarrow> (([(''error'', JStr (str_exn e))], 503), c))))"

section \<open>Fuel mix\<close>

definition fuel_labels :: "(string \<times> string) list" where
  "fuel_labels =
     [(''CCGT'', ''Gas CCGT''), (''OCGT'', ''Gas OCGT''), (''OIL'', ''Oil''), (''COAL'', ''Coal''),
      (''NUCLEAR'', ''Nuclear''), (''WIND'', ''Wind''), (''PS'', ''Pumped Storage''),
      (''NPSHYD'', ''Hydro''), (''OTHER'', ''Other''), (''INTFR'', ''France IC''),
      (''INTIRL'', ''Ireland IC''), (''INTNED'', ''Netherlands IC''), (''INTEW'', ''E-W IC''),
      (''INTNEM'', ''NEMO IC''), (''BIOMASS'', ''Biomass''), (''SOLAR'', ''Solar'')]"

definition renewable_types :: "string list" where
  "renewable_types = [''WIND'', ''SOLAR'', ''NPSHYD'', ''HYDRO'', ''BIOMASS'']"

definition low_carbon_types :: "string list" where
  "low_carbon_types = renewable_types @ [''NUCLEAR'']"

text \<open>One dict of the \<open>fuels\<close> list.\<close>

record fuel_row =
  fuel_type :: string
  label :: string
  mw :: int
  percentage :: rat

definition row_json :: "fuel_row \<Rightarrow> json" where
  "row_json f =
     JObj [(''fuel_type'', JStr (fuel_type f)), (''label'', JStr (label f)),
           (''mw'', JNum (of_int (mw f))), (''percentage'', JNum (percentage f))]"

text \<open>
  The body of the loop \<open>for d in sorted(...)\<close>, run over the records in the order given:
  a record is listed when \<open>ft and mw > 0\<close>.
\<close>

fun fuel_rows :: "rat \<Rightarrow> urec list \<Rightarrow> exn + fuel_row list" where
  "fuel_rows tot [] = Inr []"
| "fuel_rows tot (d # ds) =
     (case u_fuelType d of
        None \<Rightarrow> fuel_rows tot ds
      | Some ft \<Rightarrow>
          if ft \<noteq> [] \<and> 0 < round_half_even (output_of d) then
            (case pct (of_int (round_half_even (output_of d))) tot of
               Inl e \<Rightarrow> Inl e
             | Inr p \<Rightarrow>
                 (case fuel_rows tot ds of
                    Inl e \<Rightarrow> Inl e
                  | Inr rows \<Rightarrow>
                      Inr (\<lparr>fuel_type = ft, label = dict_get fuel_labels ft ft,
                            mw = round_half_even (output_of d), percentage = p\<rparr> # rows)))
          else fuel_rows tot ds)"

text \<open>
  \<open>sorted(latest, key=lambda x: x.get("generation", 0), reverse=True)\<close>, then the loop.
\<close>

definition sort_key_generation :: "urec \<Rightarrow> rat" where
  "sort_key_generation x = (case u_generation x of Some g \<Rightarrow> g | None \<Rightarrow> 0)"

definition fuel_mix_fuels :: "rat \<Rightarrow> urec list \<Rightarrow> exn + fuel_row list" where
  "fuel_mix_fuels tot latest = fuel_rows tot (py_sorted_reverse sort_key_generation latest)"

definition sum_mw :: "string list \<Rightarrow> fuel_row list \<Rightarrow> int" where
  "sum_mw types rows = sum_list (map mw (filter (\<lambda>f. fuel_type f \<in> set types) rows))"

text \<open>
  Lines 317 to 343: from \<open>latest\<close> and \<open>total\<close> to the \<open>result\<close> dict.
\<close>

definition fuel_mix_result :: "string \<Rightarrow> int \<Rightarrow> urec list \<Rightarrow> rat \<Rightarrow> exn + jobj" where
  "fuel_mix_result date max_sp latest tot =
     (case fuel_mix_fuels tot latest of
        Inl e \<Rightarrow> Inl e
      | Inr rows \<Rightarrow>
          (let renewable_mw = sum_mw renewable_types rows;
               low_carbon_mw = sum_mw low_carbon_types rows
           in case pct (of_int renewable_mw) tot of
                Inl e \<Rightarrow> Inl e
              | Inr renewable_pct \<Rightarrow>
                  (case pct (of_int low_carbon_mw) tot of
                     Inl e \<Rightarrow> Inl e
                   | Inr low_carbon_pct \<Rightarrow>
                       Inr [(''settlement_date'', JStr date),
                            (''settlement_period'', JNum (of_int max_sp)),
                            (''total_mw'', JNum (of_int (round_half_even tot))),
                            (''renewable_mw'', JNum (of_int renewable_mw)),
                            (''renewable_pct'', JNum renewable_pct),
                            (''low_carbon_mw'', JNum (of_int low_carbon_mw)),
                            (''low_carbon_pct'', JNum low_carbon_pct),
                            (''fuels'', JArr (map row_json rows))])))"

definition fuel_mix_latest_try ::
  "(string \<Rightarrow> (string \<times> string) list \<Rightarrow> exn + uresp) \<Rightarrow> request \<Rightarrow> rat \<Rightarrow> rat \<Rightarrow>
   jobj cache \<Rightarrow> exn + response \<times> jobj cache" where
  "fuel_mix_latest_try http_get rq t1 t2 c =
     (case fetch_elexon http_get ''generation/outturn/halfHourly''
             (Some [(''settlementDateFrom'', today rq), (''settlementDateTo'', today rq)]) of
        Inl e \<Rightarrow> Inl e
      | Inr raw \<Rightarrow>
          (let ds = data_of raw in
           if ds = [] then Inr (([(''error'', JStr ''No data'')], 404), c)
           else
             (case latest_snapshot ds of
                Inl e \<Rightarrow> Inl e
              | Inr (max_sp, latest, tot) \<Rightarrow>
                  (case fuel_mix_result (today rq) max_sp latest tot of
                     Inl e \<Rightarrow> Inl e
                   | Inr result \<Rightarrow>
                       (case dict_item CACHE_TTL ''generation'' of
                          Inl e \<Rightarrow> Inl e
                        | Inr ttl \<Rightarrow>
                            Inr ((AList.update ''_cache'' (JStr ''miss'') result, 200),
                                 cache_set c t1 t2 ''fuel_mix_latest'' result ttl))))))"

definition fuel_mix_latest ::
  "(string \<Rightarrow> (string \<times> string) list \<Rightarrow> exn + uresp) \<Rightarrow> request \<Rightarrow> rat \<Rightarrow> rat \<Rightarrow> rat \<Rightarrow>
   jobj cache \<Rightarrow> response \<times> jobj cache" where
  "fuel_mix_latest http_get rq now t1 t2 c0 =
     (case cache_get c0 now ''fuel_mix_latest'' of (cached, c) \<Rightarrow>
        (case nonempty cached of
           Some d \<Rightarrow> ((AList.update ''_cache'' (JStr ''hit'') d, 200), c)
         | None \<Rightarrow>
             (case fuel_mix_latest_try http_get rq t1 t2 c of
                Inr r \<Rightarrow> r
              | Inl e \<Rightarrow> (([(''error'', JStr (str_exn e))], 503), c))))"

section \<open>Summary\<close>

text \<open>
  \<open>sorted(ds, key=lambda d: d["settlementPeriod"])\<close>: the keys are computed first (a
  record without the key raises \<open>KeyError\<close>); each sorted record comes with its key.
\<close>

definition sorted_by_period :: "urec list \<Rightarrow> exn + (int \<times> urec) list" where
  "sorted_by_period ds =
     (case periods ds of Inl e \<Rightarrow> Inl e | Inr sps \<Rightarrow> Inr (py_sorted fst (zip sps ds)))"

text \<open>
  Each of the five blocks of \<open>summary\<close> is a \<open>try\<close> around a fetch and an \<open>if data:\<close>.
  Its outcome is the exception raised (\<open>Inl\<close>), nothing (\<open>Inr None\<close>: the data was empty
  and \<open>result\<close> is left as it was), or the dict stored under the block's key.
\<close>

definition summary_generation ::
  "(string \<Rightarrow> (string \<times> string) list \<Rightarrow> exn + uresp) \<Rightarrow> request \<Rightarrow> exn + json option" where
  "summary_generation http_get rq =
     (case fetch_elexon http_get ''generation/outturn/halfHourly''
             (Some [(''settlementDateFrom'', today rq), (''settlementDateTo'', today rq)]) of
        Inl e \<Rightarrow> Inl e
      | Inr raw \<Rightarrow>
          (let ds = data_of raw in
           if ds = [] then Inr None
           else
             (case latest_snapshot ds of
                Inl e \<Rightarrow> Inl e
              | Inr (max_sp, latest, tot) \<Rightarrow>
                  (let fuels = fuels_dict latest in
                   case pct (of_int (dict_get fuels ''WIND'' 0)) tot of
                     Inl e \<Rightarrow> Inl e
                   | Inr wind_pct \<Rightarrow>
                       (case pct (of_int (dict_get fuels ''SOLAR'' 0)) tot of
                          Inl e \<Rightarrow> Inl e
                        | Inr solar_pct \<Rightarrow>
                            Inr (Some (JObj
                              [(''total_mw'', JNum (of_int (round_half_even tot))),
                               (''fuels'', fuels_json fuels),
                               (''wind_mw'', JNum (of_int (dict_get fuels ''WIND'' 0))),
                               (''solar_mw'', JNum (of_int (dict_get fuels ''SOLAR'' 0))),
                               (''nuclear_mw'', JNum (of_int (dict_get fuels ''NUCLEAR'' 0))),
                               (''wind_pct'', JNum wind_pct),
                               (''solar_pct'', JNum solar_pct)])))))))"

definition summary_demand ::
  "(string \<Rightarrow> (string \<times> string) list \<Rightarrow> exn + uresp) \<Rightarrow> request \<Rightarrow> exn + json option" where
  "summary_demand http_get rq =
     (case fetch_elexon http_get ''demand/outturn''
             (Some [(''settlementDateFrom'', today rq), (''settlementDateTo'', today rq)]) of
        Inl e \<Rightarrow> Inl e
      | Inr raw \<Rightarrow>
          (case sorted_by_period (data_of raw) of
             Inl e \<Rightarrow> Inl e
           | Inr srt \<Rightarrow>
               (case rev srt of
                  [] \<Rightarrow> Inr None
                | (sp, latest) # rest \<Rightarrow>
                    Inr (Some (JObj
                      [(''mw'', JNum (case u_initialDemandOutturn latest of
                                        Some x \<Rightarrow> x
                                      | None \<Rightarrow> (case u_demand latest of Some y \<Rightarrow> y | None \<Rightarrow> 0))),
                       (''settlement_period'', JNum (of_int sp))])))))"

text \<open>\<open>latest["price"]\<close>.\<close>

definition price_item :: "urec \<Rightarrow> exn + rat" where
  "price_item d = (case u_price d of None \<Rightarrow> Inl (KeyError ''price'') | Some p \<Rightarrow> Inr p)"

definition summary_price ::
  "(string \<Rightarrow> (string \<times> string) list \<Rightarrow> exn + uresp) \<Rightarrow> request \<Rightarrow> exn + json option" where
  "summary_price http_get rq =
     (case fetch_elexon http_get ''balancing/pricing/market-index''
             (Some [(''settlementDate'', today rq)]) of
        Inl e \<Rightarrow> Inl e
      | Inr raw \<Rightarrow>
          (case sorted_by_period (filter (\<lambda>d. u_price d \<noteq> None) (data_of raw)) of
             Inl e \<Rightarrow> Inl e
           | Inr srt \<Rightarrow>
               (case rev srt of
                  [] \<Rightarrow> Inr None
                | (sp, latest) # rest \<Rightarrow>
                    (let prev = (case rest of [] \<Rightarrow> latest | (sp', d') # rest' \<Rightarrow> d') in
                     case price_item latest of
                       Inl e \<Rightarrow> Inl e
                     | Inr latest_price \<Rightarrow>
                         (case price_item prev of
                            Inl e \<Rightarrow> Inl e
                          | Inr prev_price \<Rightarrow>
                              Inr (Some (JObj
                                [(''gbp_per_mwh'', JNum (py_round 2 latest_price)),
                                 (''settlement_period'', JNum (of_int sp)),
                                 (''change_gbp'',
                                    JNum (py_round 2 (fl (latest_price - prev_price))))])))))))"

definition summary_imbalance ::
  "(string \<Rightarrow> (string \<times> string) list \<Rightarrow> exn + uresp) \<Rightarrow> request \<Rightarrow> exn + json option" where
  "summary_imbalance http_get rq =
     (case fetch_elexon http_get ''datasets/IMBALNGC''
             (Some [(''settlementDateFrom'', today rq), (''settlementDateTo'', today rq)]) of
        Inl e \<Rightarrow> Inl e
      | Inr raw \<Rightarrow>
          (case sorted_by_period (data_of raw) of
             Inl e \<Rightarrow> Inl e
           | Inr srt \<Rightarrow>
               (case rev srt of
                  [] \<Rightarrow> Inr None
                | (sp, latest) # rest \<Rightarrow>
                    Inr (Some (JObj
                      [(''mw'', JNum (of_int (round_half_even
                          (case u_imbalance latest of
                             Some x \<Rightarrow> x
                           | None \<Rightarrow>
                               (case u_indicatedImbalance latest of
                                  Some y \<Rightarrow> y
                                | None \<Rightarrow> (case u_value latest of Some z \<Rightarrow> z | None \<Rightarrow> 0)))))),
                       (''settlement_period'', JNum (of_int sp))])))))"

definition freq_status :: "rat \<Rightarrow> string" where
  "freq_status freq =
     (if \<bar>fl (freq - 50)\<bar> < fl (5 / 100) then ''normal''
      else if \<bar>fl (freq - 50)\<bar> < fl (2 / 10) then ''deviation'' else ''alert'')"

definition summary_frequency ::
  "(string \<Rightarrow> (string \<times> string) list \<Rightarrow> exn + uresp) \<Rightarrow> request \<Rightarrow> exn + json option" where
  "summary_frequency http_get rq =
     (case fetch_elexon http_get ''datasets/FREQ'' (Some [(''publishDateTimeFrom'', hour_ago rq)]) of
        Inl e \<Rightarrow> Inl e
      | Inr raw \<Rightarrow>
          (case rev (py_sorted (\<lambda>d. case u_publishTime d of Some t \<Rightarrow> t | None \<Rightarrow> [])
                       (data_of raw)) of
             [] \<Rightarrow> Inr None
           | latest # rest \<Rightarrow>
               (let freq = (case u_frequency latest of
                              Some x \<Rightarrow> x
                            | None \<Rightarrow> (case u_value latest of Some y \<Rightarrow> y | None \<Rightarrow> 50))
                in Inr (Some (JObj
                     [(''hz'', JNum (py_round 3 freq)),
                      (''nominal_hz'', JNum 50),
                      (''deviation'', JNum (py_round 3 (fl (freq - 50)))),
                      (''status'', JStr (freq_status freq)),
                      (''published_at'',
                         (case u_publishTime latest of Some t \<Rightarrow> JStr t | None \<Rightarrow> JNull))])))))"

text \<open>
  What one block does to \<open>result\<close> and \<open>errors\<close>: \<open>errors[key] = str(e)\<close> on an
  exception, \<open>result[key] = ...\<close> on a value, nothing on empty data.
\<close>

definition attempt :: "string \<Rightarrow> exn + json option \<Rightarrow> jobj \<times> jobj \<Rightarrow> jobj \<times> jobj" where
  "attempt key outcome st =
     (case st of (result, errors) \<Rightarrow>
        (case outcome of
           Inl e \<Rightarrow> (result, AList.update key (JStr (str_exn e)) errors)
         | Inr None \<Rightarrow> (result, errors)
         | Inr (Some v) \<Rightarrow> (AList.update key v result, errors)))"

text \<open>
  The \<open>result\<close> dict of \<open>summary\<close> on a cache miss, from the settlement period dict on:
  the five blocks in order, then \<open>if errors: result["_errors"] = errors\<close>.
\<close>

definition summary_result ::
  "(string \<Rightarrow> (string \<times> string) list \<Rightarrow> exn + uresp) \<Rightarrow> request \<Rightarrow> sp_info \<Rightarrow> jobj" where
  "summary_result http_get rq sp =
     (case attempt ''frequency'' (summary_frequency http_get rq)
            (attempt ''imbalance'' (summary_imbalance http_get rq)
              (attempt ''price'' (summary_price http_get rq)
                (attempt ''demand'' (summary_demand http_get rq)
                  (attempt ''generation'' (summary_generation http_get rq)
                    ([(''settlement_period'', sp_json sp)], []))))) of
        (result, errors) \<Rightarrow>
          if errors = [] then result else AList.update ''_errors'' (JObj errors) result)"

text \<open>
  \<open>summary\<close>. \<open>dt_now\<close> is the clock reading of \<open>current_settlement_period\<close>, which is
  called outside every \<open>try\<close>: an exception of its own leaves the view (\<open>Inl\<close>).
\<close>

definition summary ::
  "(string \<Rightarrow> (string \<times> string) list \<Rightarrow> exn + uresp) \<Rightarrow> request \<Rightarrow> datetime \<Rightarrow> rat \<Rightarrow> rat \<Rightarrow>
   rat \<Rightarrow> jobj cache \<Rightarrow> (exn + response) \<times> jobj cache" where
  "summary http_get rq dt_now now t1 t2 c0 =
     (case cache_get c0 now ''summary'' of (cached, c) \<Rightarrow>
        (case nonempty cached of
           Some d \<Rightarrow> (Inr (AList.update ''_cache'' (JStr ''hit'') d, 200), c)
         | None \<Rightarrow>
             (case current_settlement_period dt_now of
                Inl e \<Rightarrow> (Inl e, c)
              | Inr sp \<Rightarrow>
                  (let result = summary_result http_get rq sp
                   in (Inr (AList.update ''_cache'' (JStr ''miss'') result, 200),
                       cache_set c t1 t2 ''summary'' result 60)))))"

section \<open>Raw passthrough\<close>

text \<open>
  \<open>params\<close> is \<open>dict(request.args)\<close>: the query parameters as a dict, one value per
  name, in the order of the query string. The cache key is the f-string
  \<open>raw:{elexon_path}:{sorted(params.items())}\<close>; pairs of strings are compared as Python
  compares tuples of \<open>str\<close>.
\<close>

definition raw_cache_key :: "string \<Rightarrow> (string \<times> string) list \<Rightarrow> string" where
  "raw_cache_key elexon_path params = ''raw:'' @ elexon_path @ '':'' @ str_items (sort params)"

definition raw_passthrough ::
  "(string \<Rightarrow> (string \<times> string) list \<Rightarrow> exn + jobj) \<Rightarrow> string \<Rightarrow> (string \<times> string) list \<Rightarrow>
   rat \<Rightarrow> rat \<Rightarrow> rat \<Rightarrow> jobj cache \<Rightarrow> response \<times> jobj cache" where
  "raw_passthrough http_get elexon_path params now t1 t2 c0 =
     (let cache_key = raw_cache_key elexon_path params in
      case cache_get c0 now cache_key of (cached, c) \<Rightarrow>
        (case nonempty cached of
           Some d \<Rightarrow> ((AList.update ''_cache'' (JStr ''hit'') d, 200), c)
         | None \<Rightarrow>
             (case fetch_elexon http_get elexon_path (Some params) of
                Inr d \<Rightarrow>
                  ((AList.update ''_cache'' (JStr ''miss'') d, 200),
                   cache_set c t1 t2 cache_key d 300)
              | Inl (HTTPError code msg) \<Rightarrow> (([(''error'', JStr msg)], 502), c)
              | Inl e \<Rightarrow> (([(''error'', JStr (str_exn e))], 503), c))))"

section \<open>Vocabulary of the statements\<close>

text \<open>
  The five blocks of \<open>summary\<close> by key, each with its outcome, and the entry of a key in
  the \<open>_errors\<close> dict of a result (\<open>None\<close> when the result has no \<open>_errors\<close>).
\<close>

definition summary_blocks ::
  "(string \<Rightarrow> (string \<times> string) list \<Rightarrow> exn + uresp) \<Rightarrow> request \<Rightarrow>
   (string \<times> (exn + json option)) list" where
  "summary_blocks http_get rq =
     [(''generation'', summary_generation http_get rq),
      (''demand'', summary_demand http_get rq),
      (''price'', summary_price http_get rq),
      (''imbalance'', summary_imbalance http_get rq),
      (''frequency'', summary_frequency http_get rq)]"

definition errors_of :: "jobj \<Rightarrow> string \<Rightarrow> json option" where
  "errors_of result key =
     (case map_of result ''_errors'' of Some (JObj errors) \<Rightarrow> map_of errors key | _ \<Rightarrow> None)"

text \<open>
  The fuel-mix listing in the words of the specification: a record is listed when it has
  a fuel type and a positive rounded output, and its row carries the rounded output and
  its share of the total, rounded to one decimal, 0 when the total is 0.
\<close>

definition spec_listed :: "urec \<Rightarrow> bool" where
  "spec_listed d \<longleftrightarrow>
     (case u_fuelType d of None \<Rightarrow> False | Some ft \<Rightarrow> ft \<noteq> [] \<and> 0 < round_half_even (output_of d))"

definition spec_row :: "rat \<Rightarrow> urec \<Rightarrow> fuel_row" where
  "spec_row tot d =
     (let ft = (case u_fuelType d of None \<Rightarrow> [] | Some f \<Rightarrow> f);
          out = round_half_even (output_of d)
      in \<lparr>fuel_type = ft, label = dict_get fuel_labels ft ft, mw = out,
           percentage =
             (if tot = 0 then 0 else py_round 1 (fl (fl (of_int out / tot) * 100)))\<rparr>)"

text \<open>The routes decorated with \<open>proxy_route\<close>, each with its cache key function.\<close>

definition proxied_routes ::
  "((request \<Rightarrow> string) \<times>
    ((string \<Rightarrow> (string \<times> string) list \<Rightarrow> exn + jobj) \<Rightarrow> request \<Rightarrow> rat \<Rightarrow> rat \<Rightarrow> rat \<Rightarrow>
     jobj cache \<Rightarrow> (exn + response) \<times> jobj cache)) list" where
  "proxied_routes =
     [(generation_key, generation), (demand_key, demand), (price_key, price),
      (imbalance_key, imbalance), (frequency_key, frequency)]"

text \<open>
  A cache for the examples, read at clock reading 10: a fresh entry of the demand route
  for 17 February 2025 and an expired entry of the frequency route.
\<close>

definition example_cache :: "jobj cache" where
  "example_cache =
     [''demand:2025-02-17'' \<mapsto> \<lparr>data = [(''data'', JArr [])], stored = 0, expires = 300\<rparr>,
      ''frequency:latest'' \<mapsto> \<lparr>data = [(''data'', JArr [])], stored = 0, expires = 5\<rparr>]"

text \<open>
  Inputs of the examples: a request without query parameters on 17 February 2025, a clock
  reading of that day (day number 739299) at 11:00, and an upstream record with no key,
  to which an example adds the keys it has.
\<close>

definition example_request :: request where
  "example_request =
     \<lparr>args = [], today = ''2025-02-17'', yesterday = ''2025-02-16'',
      hour_ago = ''2025-02-17T10:00:00Z''\<rparr>"

definition example_now :: datetime where
  "example_now = \<lparr>day_ordinal = 739299, hour = 11, minute = 0, second = 0, microsecond = 0\<rparr>"

definition no_keys :: urec where
  "no_keys =
     \<lparr>u_settlementPeriod = None, u_fuelType = None, u_generation = None, u_quantity = None,
      u_initialDemandOutturn = None, u_demand = None, u_price = None, u_imbalance = None,
      u_indicatedImbalance = None, u_value = None, u_publishTime = None, u_frequency = None\<rparr>"

text \<open>The blocks run in order over \<open>(result, errors)\<close>.\<close>

definition run_blocks :: "(string \<times> (exn + json option)) list \<Rightarrow> jobj \<times> jobj \<Rightarrow> jobj \<times> jobj" where
  "run_blocks bs st = foldl (\<lambda>s b. attempt (fst b) (snd b) s) st bs"

text \<open>
  More inputs of the examples: the settlement period of the example clock reading, a
  record with the keys of all five datasets, and an upstream whose price endpoint times
  out while every other endpoint answers with that record.
\<close>

definition example_period :: sp_info where
  "example_period =
     \<lparr>settlement_date = 739299, settlement_period = 23,
      period_start_utc = \<lparr>day_ordinal = 739299, hour = 11, minute = 0, second = 0, microsecond = 0\<rparr>,
      period_end_utc = \<lparr>day_ordinal = 739299, hour = 11, minute = 30, second = 0, microsecond = 0\<rparr>,
      periods_per_day = 48, next_sp = 24\<rparr>"

definition example_record :: urec where
  "example_record =
     no_keys\<lparr>u_settlementPeriod := Some 22, u_fuelType := Some ''WIND'', u_generation := Some 600,
             u_initialDemandOutturn := Some 30000, u_imbalance := Some 12,
             u_publishTime := Some ''2025-02-17T10:59:30Z'', u_frequency := Some 50\<rparr>"

definition example_upstream :: "string \<Rightarrow> (string \<times> string) list \<Rightarrow> exn + uresp" where
  "example_upstream url params =
     (if url = ELEXON_BASE @ ''/balancing/pricing/market-index''
      then Inl (RequestException ''timed out'')
      else Inr (Some [example_record]))"

section \<open>Facts about the primitives\<close>

lemma py_int_nonneg: "0 \<le> x \<Longrightarrow> py_int x = \<lfloor>x\<rfloor>"
  by (simp add: py_int_def)

lemma round_half_even_int [simp]: "round_half_even (of_int n) = n"
  by (simp add: round_half_even_def Let_def)

lemma round_half_even_zero [simp]: "round_half_even 0 = 0"
  by (simp add: round_half_even_def)

lemma round_half_even_numeral [simp]: "round_half_even (numeral n) = numeral n"
  using round_half_even_int[of "numeral n"] by simp

lemma round_half_even_neg_numeral [simp]: "round_half_even (- numeral n) = - numeral n"
  using round_half_even_int[of "- numeral n"] by simp

lemma round_half_even_bounds: "\<lfloor>x\<rfloor> \<le> round_half_even x \<and> round_half_even x \<le> \<lfloor>x\<rfloor> + 1"
  by (simp add: round_half_even_def Let_def)

lemma round_half_even_mono:
  assumes "x \<le> y"
  shows "round_half_even x \<le> round_half_even y"
proof (cases "\<lfloor>x\<rfloor> = \<lfloor>y\<rfloor>")
  case True
  have "x - of_int \<lfloor>y\<rfloor> \<le> y - of_int \<lfloor>y\<rfloor>" using assms by simp
  then show ?thesis
    unfolding round_half_even_def Let_def True by auto
next
  case False
  have "\<lfloor>x\<rfloor> \<le> \<lfloor>y\<rfloor>" using assms by (rule floor_mono)
  then have "\<lfloor>x\<rfloor> + 1 \<le> \<lfloor>y\<rfloor>" using False by simp
  then show ?thesis
    using round_half_even_bounds[of x] round_half_even_bounds[of y] by linarith
qed

lemma round_half_even_near:
  assumes "\<bar>x - of_int n\<bar> < 1 / 2"
  shows "round_half_even x = n"
proof (cases "of_int n \<le> x")
  case True
  then have "\<lfloor>x\<rfloor> = n" using assms by (intro floor_unique) auto
  then show ?thesis using assms True by (simp add: round_half_even_def Let_def)
next
  case False
  then have f: "\<lfloor>x\<rfloor> = n - 1" using assms by (intro floor_unique) auto
  have "1 / 2 < x - of_int (n - 1)" using assms False by auto
  then show ?thesis unfolding round_half_even_def Let_def f by auto
qed

lemma fl_zero [simp]: "fl 0 = 0"
  by (simp add: fl_def)

lemma py_round_zero: "py_round n 0 = 0"
  by (simp add: py_round_def)

lemma py_sum_zeros: "(\<forall>x \<in> set xs. x = 0) \<Longrightarrow> py_sum xs = 0"
  unfolding py_sum_def by (induction xs) simp_all

text \<open>
  Binary rounding at work: the float written \<open>2.675\<close> lies below 2.675 and rounds to 2.67
  at two decimals; \<open>0.0015 * 100\<close> lies below 0.15 and rounds to 0.1 at one decimal;
  \<open>sum([1.1, 2.2, -3.3])\<close> is \<open>2^-51\<close>, not 0; and the frequency 50.05 is less than
  0.05 away from 50 once the difference and the bound are floats.
\<close>

lemma float_examples:
  "fl 600 = 600"
  "fl (1 / 10) = 3602879701896397 / 36028797018963968"
  "fl (2675 / 1000) = 3011782250804019 / 1125899906842624"
  "fl (2675 / 1000) < 2675 / 1000"
  "py_round 2 (fl (fl (2675 / 1000) - 0)) = fl (267 / 100)"
  "py_round 1 (fl (fl (3 / 2000) * 100)) = fl (1 / 10)"
  "py_sum [fl (11 / 10), fl (22 / 10), fl (- 33 / 10)] = 1 / 2251799813685248"
  "freq_status (fl (5005 / 100)) = ''normal''"
  by code_simp+

lemma pct_value: "pct x tot = Inr (if tot = 0 then 0 else py_round 1 (fl (fl (x / tot) * 100)))"
  by (simp add: pct_def py_div_def)

lemma cache_get_pair: "cache_get c now k = (fst (cache_get c now k), c)"
  by (simp add: cache_get_def split: option.splits)

lemma cache_get_miss:
  assumes "fst (cache_get c now k) = None"
  shows "cache_get c now k = (None, c)"
  using cache_get_pair[of c now k] assms by simp

section \<open>Cache properties\<close>

text \<open>
  C1 (cache freshness). For every key, \<open>cache_get\<close> returns the stored value exactly
  when the key has an entry and the current time is strictly below the entry's expiry
  time; otherwise (no entry, or \<open>now \<ge> expires\<close>) it returns \<open>None\<close>, although the entry
  is still there; the cache is returned unchanged. For an entry written by
  \<open>cache_set\<close> the expiry time is the clock reading plus the ttl: the value comes back
  exactly while \<open>now < t2 + ttl\<close>, which is \<open>stored + ttl\<close> when both clock readings of
  \<open>cache_set\<close> are the same instant \<open>t\<close>.
\<close>

theorem cache_get_freshness:
  "(fst (cache_get c now k) = Some v \<longleftrightarrow> (\<exists>e. c k = Some e \<and> data e = v \<and> now < expires e))
   \<and> (fst (cache_get c now k) = None \<longleftrightarrow> (c k = None \<or> (\<exists>e. c k = Some e \<and> expires e \<le> now)))
   \<and> snd (cache_get c now k) = c
   \<and> snd (cache_get c now k) k = c k
   \<and> (fst (cache_get (cache_set c t1 t2 k v ttl) now k) = Some v \<longleftrightarrow> now < t2 + of_int ttl)
   \<and> (fst (cache_get (cache_set c t1 t2 k v ttl) now k) = None \<longleftrightarrow> t2 + of_int ttl \<le> now)
   \<and> (cache_set c t t k v ttl) k = Some \<lparr>data = v, stored = t, expires = t + of_int ttl\<rparr>
   \<and> (fst (cache_get (cache_set c t t k v ttl) now k) = Some v \<longleftrightarrow> now < t + of_int ttl)"
  by (auto simp: cache_get_def cache_set_def split: option.splits)

text \<open>
  C5 (cache stats). The claim names the fields \<open>age_seconds\<close>, \<open>expires_in_seconds\<close>
  and \<open>stored_at_utc\<close>; the dict \<open>cache_stats\<close> builds has the keys \<open>age_seconds\<close>,
  \<open>expires_in\<close> and \<open>cached_at_utc\<close>. Here for an entry stored at 60 that expired at
  70, read at 100.
\<close>

theorem cache_stats_fields_counterexample:
  "map_option dict_keys
     (cache_stats (Map.empty(''demand:2025-02-17'' \<mapsto> \<lparr>data = [] :: jobj, stored = 60, expires = 70\<rparr>)) 100
        ''demand:2025-02-17'')
     = Some [''age_seconds'', ''expires_in'', ''cached_at_utc'']
   \<and> map_option dict_keys
     (cache_stats (Map.empty(''demand:2025-02-17'' \<mapsto> \<lparr>data = [] :: jobj, stored = 60, expires = 70\<rparr>)) 100
        ''demand:2025-02-17'')
     \<noteq> Some [''age_seconds'', ''expires_in_seconds'', ''stored_at_utc'']"
  by (simp add: cache_stats_def entry_stats_def dict_keys_def)

text \<open>
  C5, amended. \<open>cache_stats\<close> has a dict for exactly the keys of the cache, whether or
  not their entries are still fresh. For an entry stored at or before \<open>now\<close> the dict is
  \<open>age_seconds = floor(now - stored)\<close>, \<open>expires_in = max(0, int(expires - now))\<close> and
  \<open>cached_at_utc\<close>, the ISO text of the time it was stored.
\<close>

theorem cache_stats_all_entries:
  assumes "c k = Some e" and "stored e \<le> now"
  shows "cache_stats c now k =
           Some [(''age_seconds'', JNum (of_int \<lfloor>now - stored e\<rfloor>)),
                 (''expires_in'', JNum (of_int (max 0 (py_int (expires e - now))))),
                 (''cached_at_utc'', JStamp (stored e))]
         \<and> dom (cache_stats c now) = dom c"
  using assms
  by (auto simp: cache_stats_def entry_stats_def py_int_nonneg split: option.splits)

text \<open>The entry of the witness expired 30 seconds before it is read: \<open>cache_get\<close> misses, the stats list it.\<close>

theorem cache_stats_all_entries_witness:
  "cache_stats (Map.empty(''demand:2025-02-17'' \<mapsto> \<lparr>data = [] :: jobj, stored = 60, expires = 70\<rparr>)) 100
       ''demand:2025-02-17'' =
     Some [(''age_seconds'', JNum 40), (''expires_in'', JNum 0), (''cached_at_utc'', JStamp 60)]
   \<and> fst (cache_get (Map.empty(''demand:2025-02-17'' \<mapsto> \<lparr>data = [] :: jobj, stored = 60, expires = 70\<rparr>)) 100
       ''demand:2025-02-17'') = None"
  using cache_stats_all_entries
    [of "Map.empty(''demand:2025-02-17'' \<mapsto> \<lparr>data = [] :: jobj, stored = 60, expires = 70\<rparr>)"
        "''demand:2025-02-17''" "\<lparr>data = [] :: jobj, stored = 60, expires = 70\<rparr>" 100]
  by (simp add: py_int_def cache_get_def)

section \<open>Raw passthrough keys\<close>

lemma sort_dict_unique:
  assumes "distinct (map fst p1)" "distinct (map fst p2)" "set p1 = set p2"
  shows "sort p1 = sort p2"
proof -
  have "distinct p1" "distinct p2" using assms(1,2) by (simp_all add: distinct_map)
  then show ?thesis
    using assms(3) by (intro sorted_distinct_set_unique) auto
qed

text \<open>
  C7 (key determinism). Two parameter dicts with the same (name, value) pairs, in any
  order, give the same raw-passthrough cache key for every path; so what one request
  stored under its key is what \<open>cache_get\<close> finds for the other, while it is fresh.
\<close>

theorem raw_cache_key_order_independent:
  assumes "distinct (map fst p1)" "distinct (map fst p2)" "set p1 = set p2"
  shows "raw_cache_key path p1 = raw_cache_key path p2
         \<and> fst (cache_get (cache_set c t1 t2 (raw_cache_key path p1) d 300) now (raw_cache_key path p2))
             = (if now < t2 + 300 then Some d else None)"
  using sort_dict_unique[OF assms]
  by (simp add: raw_cache_key_def cache_get_def cache_set_def)

theorem raw_cache_key_order_independent_witness:
  "raw_cache_key ''datasets/BOAL'' [(''settlementDate'', ''2025-02-17''), (''bmUnit'', ''T_DRAXX-1'')]
     = raw_cache_key ''datasets/BOAL'' [(''bmUnit'', ''T_DRAXX-1''), (''settlementDate'', ''2025-02-17'')]"
proof -
  have d1: "distinct (map fst [(''settlementDate'', ''2025-02-17''), (''bmUnit'', ''T_DRAXX-1'')])"
    by simp
  have d2: "distinct (map fst [(''bmUnit'', ''T_DRAXX-1''), (''settlementDate'', ''2025-02-17'')])"
    by simp
  have s: "set [(''settlementDate'', ''2025-02-17''), (''bmUnit'', ''T_DRAXX-1'')]
      = set [(''bmUnit'', ''T_DRAXX-1''), (''settlementDate'', ''2025-02-17'')]"
    by auto
  show ?thesis
    by (rule raw_cache_key_order_independent [OF d1 d2 s, THEN conjunct1])
qed

section \<open>Settlement clock properties\<close>

lemma half_hour_cases:
  fixes m :: int
  assumes "0 \<le> m" "m < 60"
  shows "(m < 30 \<and> m div 30 = 0) \<or> (30 \<le> m \<and> m div 30 = 1)"
proof (cases "m < 30")
  case True
  then show ?thesis using assms by simp
next
  case False
  then have b: "0 \<le> m - 30" "m - 30 < 30" using assms by simp_all
  have "(m - 30 + 30) div 30 = (m - 30) div 30 + 1"
    by (rule div_add_self2) simp
  then have "m div 30 = 1" using b by simp
  then show ?thesis using False by simp
qed

lemma sp_index:
  fixes h m :: int
  shows "(h * 60 + m) div 30 = 2 * h + m div 30"
proof -
  have "h * 60 + m = m + (2 * h) * 30" by simp
  moreover have "(m + (2 * h) * 30) div 30 = 2 * h + m div 30"
    by (rule div_mult_self1) simp
  ultimately show ?thesis by simp
qed

lemma sp_start_fields:
  fixes h q :: int
  assumes "q = 0 \<or> q = 1"
  shows "(2 * h + q) mod 2 = q"
    and "(2 * h + q) * 30 div 60 = h"
    and "(2 * h + q) * 30 mod 60 = q * 30"
proof -
  show "(2 * h + q) mod 2 = q" using assms by auto
  have e: "(2 * h + q) * 30 = q * 30 + h * 60" by (simp add: algebra_simps)
  show "(2 * h + q) * 30 div 60 = h" unfolding e using assms by auto
  show "(2 * h + q) * 30 mod 60 = q * 30" unfolding e using assms by auto
qed

lemma hms_recompose:
  fixes s :: int
  shows "s div 3600 * 3600 + s mod 3600 div 60 * 60 + s mod 60 = s"
proof -
  have a: "s mod 3600 mod 60 = s mod 60"
    by (simp add: mod_mod_cancel)
  have "s mod 3600 div 60 * 60 + s mod 3600 mod 60 = s mod 3600" by simp
  then have "s div 3600 * 3600 + (s mod 3600 div 60 * 60 + s mod 60) = s"
    unfolding a[symmetric] by simp
  then show ?thesis by simp
qed

lemma add_minutes_micros:
  assumes "add_minutes d n = Inr d'"
  shows "micros_of d' = micros_of d + n * 60000000"
proof -
  define secs where "secs = hour d * 3600 + minute d * 60 + second d + n * 60"
  define s where "s = secs mod 86400"
  have d': "d' = \<lparr>day_ordinal = day_ordinal d + secs div 86400, hour = s div 3600,
                  minute = s mod 3600 div 60, second = s mod 60,
                  microsecond = microsecond d\<rparr>"
    using assms by (auto simp: add_minutes_def Let_def secs_def s_def split: if_splits)
  have "secs div 86400 * 86400 + s = secs" by (simp add: s_def)
  then have "((day_ordinal d + secs div 86400) * 24 + s div 3600) * 60 * 60
          + s mod 3600 div 60 * 60 + s mod 60
        = day_ordinal d * 86400 + secs"
    using hms_recompose[of s] by (simp add: algebra_simps)
  then have "(((day_ordinal d + secs div 86400) * 24 + s div 3600) * 60
          + s mod 3600 div 60) * 60 + s mod 60
        = ((day_ordinal d * 24 + hour d) * 60 + minute d) * 60 + second d + n * 60"
    by (simp add: secs_def algebra_simps)
  then have "((((day_ordinal d + secs div 86400) * 24 + s div 3600) * 60
          + s mod 3600 div 60) * 60 + s mod 60) * 1000000
        = (((day_ordinal d * 24 + hour d) * 60 + minute d) * 60 + second d + n * 60) * 1000000"
    by simp
  then show ?thesis
    by (simp add: d' micros_of_def algebra_simps)
qed


text \<open>
  The dict \<open>current_settlement_period\<close> returns, in closed form, for a clock reading
  whose period end \<open>datetime\<close> can represent (any time before 23:30 on 31 December
  9999).
\<close>

lemma settlement_period_value:
  assumes v: "valid_datetime now"
      and rep: "day_ordinal now < MAXORDINAL \<or> hour now * 60 + minute now < 1410"
  shows "current_settlement_period now =
           Inr \<lparr>settlement_date = day_ordinal now,
                settlement_period = (hour now * 60 + minute now) div 30 + 1,
                period_start_utc = now\<lparr>minute := minute now div 30 * 30, second := 0, microsecond := 0\<rparr>,
                period_end_utc =
                  (if minute now < 30 then now\<lparr>minute := 30, second := 0, microsecond := 0\<rparr>
                   else if hour now < 23
                     then now\<lparr>hour := hour now + 1, minute := 0, second := 0, microsecond := 0\<rparr>
                   else \<lparr>day_ordinal = day_ordinal now + 1, hour = 0, minute = 0, second = 0,
                         microsecond = 0\<rparr>),
                periods_per_day = 48,
                next_sp = ((hour now * 60 + minute now) div 30 + 1) mod 48 + 1\<rparr>"
proof -
  have h: "0 \<le> hour now" "hour now < 24" and m: "0 \<le> minute now" "minute now < 60"
    and o: "1 \<le> day_ordinal now" "day_ordinal now \<le> MAXORDINAL"
    using v by (simp_all add: valid_datetime_def)
  define q where "q = minute now div 30"
  have q: "q = 0 \<or> q = 1" and qm: "(minute now < 30 \<and> q = 0) \<or> (30 \<le> minute now \<and> q = 1)"
    using half_hour_cases[OF m] by (auto simp: q_def)
  have sp: "(hour now * 60 + minute now) div 30 = 2 * hour now + q"
    by (simp add: sp_index q_def)
  note f = sp_start_fields[OF q, of "hour now"]
  have r1: "replace_fields now None (Some (q * 30)) (Some 0) (Some 0)
              = Inr (now\<lparr>minute := q * 30, second := 0, microsecond := 0\<rparr>)"
    using q h by (auto simp: replace_fields_def)
  have r2: "replace_fields (now\<lparr>minute := q * 30, second := 0, microsecond := 0\<rparr>)
              (Some (hour now)) (Some (q * 30)) None None
              = Inr (now\<lparr>minute := q * 30, second := 0, microsecond := 0\<rparr>)"
    using q h by (auto simp: replace_fields_def)
  have start: "(if 60 \<le> (2 * hour now + q) * 30
                then replace_fields (now\<lparr>minute := q * 30, second := 0, microsecond := 0\<rparr>)
                       (Some (hour now)) (Some (q * 30)) None None
                else Inr (now\<lparr>minute := q * 30, second := 0, microsecond := 0\<rparr>))
               = Inr (now\<lparr>minute := q * 30, second := 0, microsecond := 0\<rparr>)"
    by (simp add: r2)
  have e: "add_minutes (now\<lparr>minute := q * 30, second := 0, microsecond := 0\<rparr>) 30
            = Inr (if minute now < 30 then now\<lparr>minute := 30, second := 0, microsecond := 0\<rparr>
                   else if hour now < 23
                     then now\<lparr>hour := hour now + 1, minute := 0, second := 0, microsecond := 0\<rparr>
                   else \<lparr>day_ordinal = day_ordinal now + 1, hour = 0, minute = 0, second = 0,
                         microsecond = 0\<rparr>)"
  proof (cases "minute now < 30")
    case True
    then have q0: "q = 0" using qm by auto
    have "(hour now * 3600 + 1800) div 86400 = 0" "(hour now * 3600 + 1800) mod 86400 = hour now * 3600 + 1800"
      using h by simp_all
    moreover have "(hour now * 3600 + 1800) div 3600 = hour now"
      using div_mult_self1[of 3600 1800 "hour now"] by (simp add: add.commute)
    moreover have "(hour now * 3600 + 1800) mod 3600 = 1800"
      by simp
    ultimately show ?thesis
      using True q0 o by (simp add: add_minutes_def Let_def)
  next
    case False
    then have q1: "q = 1" using qm by auto
    show ?thesis
    proof (cases "hour now < 23")
      case True
      have s: "hour now * 3600 + 1800 + 1800 = (hour now + 1) * 3600" by simp
      have "((hour now + 1) * 3600) div 86400 = 0"
           "((hour now + 1) * 3600) mod 86400 = (hour now + 1) * 3600"
        using h True by simp_all
      then show ?thesis
        using True False q1 o by (simp add: add_minutes_def Let_def s)
    next
      case False
      then have h23: "hour now = 23" using h by simp
      have "day_ordinal now < MAXORDINAL" using rep h23 \<open>\<not> minute now < 30\<close> by simp
      then show ?thesis
        using h23 \<open>\<not> minute now < 30\<close> q1 o by (simp add: add_minutes_def Let_def)
    qed
  qed
  have "current_settlement_period now =
           Inr \<lparr>settlement_date = day_ordinal now,
                settlement_period = 2 * hour now + q + 1,
                period_start_utc = now\<lparr>minute := q * 30, second := 0, microsecond := 0\<rparr>,
                period_end_utc =
                  (if minute now < 30 then now\<lparr>minute := 30, second := 0, microsecond := 0\<rparr>
                   else if hour now < 23
                     then now\<lparr>hour := hour now + 1, minute := 0, second := 0, microsecond := 0\<rparr>
                   else \<lparr>day_ordinal = day_ordinal now + 1, hour = 0, minute = 0, second = 0,
                         microsecond = 0\<rparr>),
                periods_per_day = 48,
                next_sp = (2 * hour now + q + 1) mod 48 + 1\<rparr>"
    unfolding current_settlement_period_def Let_def sp
    by (simp only: add_diff_cancel_right' f r1 start e sum.case)
  then show ?thesis
    unfolding sp q_def .
qed


text \<open>
  C4 (settlement clock). For every clock reading \<open>now\<close> (whose period end is
  representable) \<open>current_settlement_period\<close> returns, and its result depends on \<open>now\<close>
  alone: \<open>settlement_period = floor(minutes since midnight / 30) + 1\<close>, which lies in
  1..48; \<open>next_sp\<close> is the following period, 1 after 48; \<open>period_start_utc\<close> is a
  multiple of 30 minutes, at or before \<open>now\<close> and less than 30 minutes before it;
  \<open>period_end_utc\<close> is exactly 30 minutes after \<open>period_start_utc\<close>. At 00:00:00 the
  period is 1, from 00:00 to 00:30, with \<open>next_sp = 2\<close>; at 23:59:59 it is 48 with
  \<open>next_sp = 1\<close>.
\<close>

theorem settlement_clock:
  assumes v: "valid_datetime now"
      and rep: "day_ordinal now < MAXORDINAL \<or> hour now * 60 + minute now < 1410"
  shows "\<exists>r. current_settlement_period now = Inr r
           \<and> settlement_period r = (hour now * 60 + minute now) div 30 + 1
           \<and> 1 \<le> settlement_period r \<and> settlement_period r \<le> 48
           \<and> next_sp r = (if settlement_period r = 48 then 1 else settlement_period r + 1)
           \<and> micros_of (period_start_utc r) mod 1800000000 = 0
           \<and> micros_of (period_start_utc r) \<le> micros_of now
           \<and> micros_of now < micros_of (period_start_utc r) + 1800000000
           \<and> micros_of (period_end_utc r) = micros_of (period_start_utc r) + 1800000000
           \<and> (hour now = 0 \<and> minute now = 0 \<and> second now = 0 \<longrightarrow>
                settlement_period r = 1 \<and> next_sp r = 2
                \<and> period_start_utc r = now\<lparr>microsecond := 0\<rparr>
                \<and> period_end_utc r = now\<lparr>minute := 30, microsecond := 0\<rparr>)
           \<and> (hour now = 23 \<and> minute now = 59 \<and> second now = 59 \<longrightarrow>
                settlement_period r = 48 \<and> next_sp r = 1)"
proof -
  define sp where "sp = (hour now * 60 + minute now) div 30 + 1"
  define start where "start = now\<lparr>minute := minute now div 30 * 30, second := 0, microsecond := 0\<rparr>"
  define fin where "fin =
     (if minute now < 30 then now\<lparr>minute := 30, second := 0, microsecond := 0\<rparr>
      else if hour now < 23
        then now\<lparr>hour := hour now + 1, minute := 0, second := 0, microsecond := 0\<rparr>
      else \<lparr>day_ordinal = day_ordinal now + 1, hour = 0, minute = 0, second = 0, microsecond = 0\<rparr>)"
  define r where "r = \<lparr>settlement_date = day_ordinal now, settlement_period = sp,
     period_start_utc = start, period_end_utc = fin, periods_per_day = 48,
     next_sp = sp mod 48 + 1\<rparr>"
  have val: "current_settlement_period now = Inr r"
    unfolding r_def sp_def start_def fin_def by (rule settlement_period_value[OF v rep])
  have h: "0 \<le> hour now" "hour now < 24" and m: "0 \<le> minute now" "minute now < 60"
    and s: "0 \<le> second now" "second now < 60"
    and us: "0 \<le> microsecond now" "microsecond now < 1000000"
    using v by (simp_all add: valid_datetime_def)
  define q where "q = minute now div 30"
  have qm: "(minute now < 30 \<and> q = 0) \<or> (30 \<le> minute now \<and> q = 1)"
    using half_hour_cases[OF m] by (simp add: q_def)
  have spq: "sp = 2 * hour now + q + 1"
    by (simp add: sp_def sp_index q_def)
  have bounds: "1 \<le> sp" "sp \<le> 48"
    using qm h by (auto simp: spq)
  have nxt: "sp mod 48 + 1 = (if sp = 48 then 1 else sp + 1)"
    using bounds by simp
  have ms: "micros_of start = ((day_ordinal now * 24 + hour now) * 2 + q) * 1800000000"
    by (simp add: micros_of_def start_def q_def)
  have aligned: "micros_of start mod 1800000000 = 0"
    unfolding ms by simp
  have mn: "micros_of now = ((day_ordinal now * 24 + hour now) * 2 + q) * 1800000000
              + ((minute now - q * 30) * 60 + second now) * 1000000 + microsecond now"
    by (simp add: micros_of_def algebra_simps)
  have off: "0 \<le> minute now - q * 30" "minute now - q * 30 \<le> 29"
    using qm m by auto
  have off0: "0 \<le> ((minute now - q * 30) * 60 + second now) * 1000000 + microsecond now"
    using off s us by simp
  have "(minute now - q * 30) * 60 + second now \<le> 1799"
    using off s by simp
  then have "((minute now - q * 30) * 60 + second now) * 1000000 \<le> 1799 * 1000000"
    by (rule mult_right_mono) simp
  then have off1: "((minute now - q * 30) * 60 + second now) * 1000000 + microsecond now < 1800000000"
    using us by simp
  have le: "micros_of start \<le> micros_of now"
    unfolding ms mn using off0 by simp
  have lt: "micros_of now < micros_of start + 1800000000"
    unfolding ms mn using off1 by simp
  have mf: "micros_of fin = micros_of start + 1800000000"
  proof (cases "minute now < 30")
    case True
    then have "q = 0" using qm by auto
    then show ?thesis using True by (simp add: ms) (simp add: fin_def micros_of_def)
  next
    case False
    then have q1: "q = 1" using qm by auto
    show ?thesis
    proof (cases "hour now < 23")
      case True
      then show ?thesis using False q1 by (simp add: ms) (simp add: fin_def micros_of_def)
    next
      case False
      then have "hour now = 23" using h by simp
      then show ?thesis using \<open>\<not> minute now < 30\<close> q1 by (simp add: ms) (simp add: fin_def micros_of_def)
    qed
  qed
  have first: "hour now = 0 \<and> minute now = 0 \<and> second now = 0 \<longrightarrow>
      sp = 1 \<and> sp mod 48 + 1 = 2 \<and> start = now\<lparr>microsecond := 0\<rparr>
      \<and> fin = now\<lparr>minute := 30, microsecond := 0\<rparr>"
    by (auto simp: sp_def start_def fin_def)
  have last: "hour now = 23 \<and> minute now = 59 \<and> second now = 59 \<longrightarrow> sp = 48 \<and> sp mod 48 + 1 = 1"
    by (auto simp: sp_def)
  show ?thesis
    apply (rule exI[of _ r])
    using val bounds nxt aligned le lt mf first last
    by (simp add: r_def sp_def)
qed

text \<open>At 23:59:59 the period is 48, from 23:30 to midnight of the next day.\<close>

theorem settlement_clock_witness:
  "current_settlement_period \<lparr>day_ordinal = 739299, hour = 23, minute = 59, second = 59, microsecond = 0\<rparr>
     = Inr \<lparr>settlement_date = 739299, settlement_period = 48,
            period_start_utc = \<lparr>day_ordinal = 739299, hour = 23, minute = 30, second = 0, microsecond = 0\<rparr>,
            period_end_utc = \<lparr>day_ordinal = 739300, hour = 0, minute = 0, second = 0, microsecond = 0\<rparr>,
            periods_per_day = 48, next_sp = 1\<rparr>"
  using settlement_clock
    [of "\<lparr>day_ordinal = 739299, hour = 23, minute = 59, second = 59, microsecond = 0\<rparr>"]
  by (simp add: valid_datetime_def MAXORDINAL_def current_settlement_period_def replace_fields_def
        add_minutes_def)

text \<open>
  The rendering of the key is injective: \<open>repr\<close> of a string can be read back from the
  front of any text it starts, so can a pair and the list of pairs.
\<close>

lemma hex_digit_inj:
  assumes "hex_digit a = hex_digit b"
  shows "a mod 16 = b mod 16"
proof -
  have d: "distinct ''0123456789abcdef''" by simp
  have l: "a mod 16 < length ''0123456789abcdef''" "b mod 16 < length ''0123456789abcdef''"
    by simp_all
  show ?thesis
    using assms nth_eq_iff_index_eq[OF d l] by (simp add: hex_digit_def)
qed

lemma hex_pair_inj:
  fixes c1 c2 :: char
  assumes "hex_digit (of_char c1 div 16) = hex_digit (of_char c2 div 16)"
      and "hex_digit (of_char c1 mod 16) = hex_digit (of_char c2 mod 16)"
  shows "c1 = c2"
proof -
  define n1 n2 :: nat where "n1 = of_char c1" and "n2 = of_char c2"
  have b: "n1 < 256" "n2 < 256" by (simp_all add: n1_def n2_def)
  have "n1 div 16 mod 16 = n2 div 16 mod 16" "n1 mod 16 mod 16 = n2 mod 16 mod 16"
    using assms hex_digit_inj unfolding n1_def n2_def by blast+
  moreover have "n1 div 16 < 16" "n2 div 16 < 16" using b by simp_all
  ultimately have "n1 div 16 = n2 div 16" "n1 mod 16 = n2 mod 16" by simp_all
  then have "n1 = n2" by (metis div_mult_mod_eq)
  then show ?thesis unfolding n1_def n2_def by simp
qed

lemma repr_char_shape:
  "(repr_char q ch = [ch] \<and> ch \<noteq> q \<and> ch \<noteq> CHR 0x5C)
   \<or> (repr_char q ch = [CHR 0x5C, ch] \<and> (ch = q \<or> ch = CHR 0x5C))
   \<or> (repr_char q ch = [CHR 0x5C, CHR ''t''] \<and> ch = CHR 0x09 \<and> ch \<noteq> q)
   \<or> (repr_char q ch = [CHR 0x5C, CHR ''n''] \<and> ch = CHR 0x0A \<and> ch \<noteq> q)
   \<or> (repr_char q ch = [CHR 0x5C, CHR ''r''] \<and> ch = CHR 0x0D \<and> ch \<noteq> q)
   \<or> (repr_char q ch = [CHR 0x5C, CHR ''x'', hex_digit (of_char ch div 16), hex_digit (of_char ch mod 16)])"
  by (simp add: repr_char_def)

lemma repr_char_prefix:
  assumes q: "q = CHR 0x27 \<or> q = CHR 0x22"
      and eq: "repr_char q c1 @ r1 = repr_char q c2 @ r2"
  shows "c1 = c2 \<and> r1 = r2"
  using repr_char_shape[of q c1] repr_char_shape[of q c2] eq q
  by (elim disjE conjE) (auto dest: hex_pair_inj)


lemma repr_char_no_quote:
  assumes "q = CHR 0x27 \<or> q = CHR 0x22"
  shows "hd (repr_char q ch) \<noteq> q \<and> repr_char q ch \<noteq> []"
  using repr_char_shape[of q ch] assms by auto

lemma repr_body_delimited:
  assumes q: "q = CHR 0x27 \<or> q = CHR 0x22"
      and eq: "concat (map (repr_char q) s1) @ q # r1 = concat (map (repr_char q) s2) @ q # r2"
  shows "s1 = s2 \<and> r1 = r2"
  using eq
proof (induction s1 arbitrary: s2)
  case Nil
  show ?case
  proof (cases s2)
    case Nil
    then show ?thesis using Nil.prems by simp
  next
    case (Cons c cs)
    obtain x xs where "repr_char q c = x # xs" "x \<noteq> q"
      using repr_char_no_quote[OF q, of c] by (cases "repr_char q c") auto
    then show ?thesis using Nil.prems Cons by simp
  qed
next
  case (Cons c1 cs1)
  show ?case
  proof (cases s2)
    case Nil
    obtain x xs where "repr_char q c1 = x # xs" "x \<noteq> q"
      using repr_char_no_quote[OF q, of c1] by (cases "repr_char q c1") auto
    then show ?thesis using Cons.prems Nil by simp
  next
    case (Cons c2 cs2)
    have "repr_char q c1 @ (concat (map (repr_char q) cs1) @ q # r1)
        = repr_char q c2 @ (concat (map (repr_char q) cs2) @ q # r2)"
      using Cons.prems Cons by simp
    from repr_char_prefix[OF q this]
    have "c1 = c2" "concat (map (repr_char q) cs1) @ q # r1 = concat (map (repr_char q) cs2) @ q # r2"
      by simp_all
    then show ?thesis using Cons.IH[of cs2] Cons by simp
  qed
qed

lemma py_repr_delimited:
  assumes "py_repr s1 @ r1 = py_repr s2 @ r2"
  shows "s1 = s2 \<and> r1 = r2"
proof -
  define q where "q = repr_quote s1"
  define q' where "q' = repr_quote s2"
  have q: "q' = CHR 0x27 \<or> q' = CHR 0x22"
    by (simp add: q'_def repr_quote_def)
  have c: "q # (concat (map (repr_char q) s1) @ q # r1) = q' # (concat (map (repr_char q') s2) @ q' # r2)"
    using assms unfolding py_repr_def q_def[symmetric] q'_def[symmetric] by auto
  have a: "q = q'"
    using c by (rule list.inject[THEN iffD1, THEN conjunct1])
  have b: "concat (map (repr_char q) s1) @ q # r1 = concat (map (repr_char q') s2) @ q' # r2"
    using c by (rule list.inject[THEN iffD1, THEN conjunct2])
  have "concat (map (repr_char q') s1) @ q' # r1 = concat (map (repr_char q') s2) @ q' # r2"
    using b unfolding a .
  then show ?thesis by (rule repr_body_delimited[OF q])
qed

lemma py_repr_inj: "py_repr s1 = py_repr s2 \<longleftrightarrow> s1 = s2"
  using py_repr_delimited[of s1 "[]" s2 "[]"] by auto

lemma str_pair_delimited:
  assumes "str_pair a @ r1 = str_pair b @ r2"
  shows "a = b \<and> r1 = r2"
proof -
  have "py_repr (fst a) @ ('', '' @ py_repr (snd a) @ '')'' @ r1)
      = py_repr (fst b) @ ('', '' @ py_repr (snd b) @ '')'' @ r2)"
    using assms by (simp add: str_pair_def)
  from py_repr_delimited[OF this]
  have k: "fst a = fst b" and "py_repr (snd a) @ ('')'' @ r1) = py_repr (snd b) @ ('')'' @ r2)"
    by simp_all
  from py_repr_delimited[OF this(2)] have "snd a = snd b" "r1 = r2" by simp_all
  then show ?thesis using k by (simp add: prod_eq_iff)
qed

lemma join_Cons: "join sep (x # xs) = x @ concat (map (\<lambda>y. sep @ y) xs)"
  by (induction xs arbitrary: x) simp_all

lemma str_tail_inj:
  assumes "concat (map (\<lambda>y. '', '' @ y) (map str_pair xs)) @ '']''
         = concat (map (\<lambda>y. '', '' @ y) (map str_pair ys)) @ '']''"
  shows "xs = ys"
  using assms
proof (induction xs arbitrary: ys)
  case Nil
  then show ?case by (cases ys) simp_all
next
  case (Cons x xs)
  show ?case
  proof (cases ys)
    case Nil
    then show ?thesis using Cons.prems by simp
  next
    case (Cons y ys')
    have "str_pair x @ (concat (map (\<lambda>y. '', '' @ y) (map str_pair xs)) @ '']'')
        = str_pair y @ (concat (map (\<lambda>y. '', '' @ y) (map str_pair ys')) @ '']'')"
      using Cons.prems Cons by simp
    from str_pair_delimited[OF this] show ?thesis
      using Cons.IH[of ys'] Cons by simp
  qed
qed

lemma str_pair_head: "\<exists>t. str_pair a = CHR ''('' # t"
  by (simp add: str_pair_def)

lemma str_items_inj:
  assumes "str_items xs = str_items ys"
  shows "xs = ys"
proof (cases xs)
  case Nil
  show ?thesis
  proof (cases ys)
    case Nil
    then show ?thesis using \<open>xs = []\<close> by simp
  next
    case (Cons y ys')
    obtain t where "str_pair y = CHR ''('' # t" using str_pair_head by blast
    then show ?thesis using assms Nil Cons by (simp add: str_items_def join_Cons)
  qed
next
  case (Cons x xs')
  show ?thesis
  proof (cases ys)
    case Nil
    obtain t where "str_pair x = CHR ''('' # t" using str_pair_head by blast
    then show ?thesis using assms Nil Cons by (simp add: str_items_def join_Cons)
  next
    case c2: (Cons y ys')
    have "str_pair x @ (concat (map (\<lambda>y. '', '' @ y) (map str_pair xs')) @ '']'')
        = str_pair y @ (concat (map (\<lambda>y. '', '' @ y) (map str_pair ys')) @ '']'')"
      using assms Cons c2 by (simp add: str_items_def join_Cons)
    from str_pair_delimited[OF this] show ?thesis
      using str_tail_inj[of xs' ys'] Cons c2 by simp
  qed
qed

lemma raw_cache_key_eq_iff:
  "raw_cache_key path p1 = raw_cache_key path p2 \<longleftrightarrow> sort p1 = sort p2"
  using str_items_inj[of "sort p1" "sort p2"] by (auto simp: raw_cache_key_def)

lemma update_at_key:
  assumes "k \<notin> fst ` set xs"
  shows "AList.update k v (xs @ (k, w) # ys) = xs @ (k, v) # ys"
  using assms by (induction xs) auto

lemma raw_passthrough_miss:
  assumes "nonempty (fst (cache_get c now (raw_cache_key path params))) = None"
  shows "raw_passthrough http_get path params now t1 t2 c =
           (case fetch_elexon http_get path (Some params) of
              Inr d \<Rightarrow> ((AList.update ''_cache'' (JStr ''miss'') d, 200),
                        cache_set c t1 t2 (raw_cache_key path params) d 300)
            | Inl (HTTPError code msg) \<Rightarrow> (([(''error'', JStr msg)], 502), c)
            | Inl e \<Rightarrow> (([(''error'', JStr (str_exn e))], 503), c))"
  unfolding raw_passthrough_def Let_def
  by (subst cache_get_pair) (simp add: assms)

lemma raw_passthrough_same_response:
  assumes "''format'' \<notin> fst ` set xs"
      and "nonempty (fst (cache_get c now (raw_cache_key path (xs @ (''format'', v1) # ys)))) = None"
      and "nonempty (fst (cache_get c now (raw_cache_key path (xs @ (''format'', v2) # ys)))) = None"
  shows "fst (raw_passthrough http_get path (xs @ (''format'', v1) # ys) now t1 t2 c)
       = fst (raw_passthrough http_get path (xs @ (''format'', v2) # ys) now t1 t2 c)"
proof -
  have "fetch_elexon http_get path (Some (xs @ (''format'', v1) # ys))
      = fetch_elexon http_get path (Some (xs @ (''format'', v2) # ys))"
    using assms(1) by (simp add: fetch_elexon_def update_at_key)
  then show ?thesis
    unfolding raw_passthrough_miss[OF assms(2)] raw_passthrough_miss[OF assms(3)]
    by (simp split: sum.splits exn.splits)
qed

text \<open>
  C10 (format override). \<open>fetch_elexon\<close> hands the upstream a parameter dict in which
  \<open>format\<close> is \<open>json\<close>, whatever the caller passed, and every other name keeps its
  value. For two raw-passthrough parameter dicts that agree on every name but \<open>format\<close>
  (another value, or absent in one of them) the cache keys differ, while the upstream is
  asked the same URL with the same parameter dict; when the two requests give \<open>format\<close>
  at the same place, the upstream call is the same for every upstream, and on a cache
  miss the raw passthrough answers both with the same response.
\<close>

theorem format_override:
  assumes d1: "distinct (map fst p1)" and d2: "distinct (map fst p2)"
      and same: "\<forall>k. k \<noteq> ''format'' \<longrightarrow> map_of p1 k = map_of p2 k"
      and diff: "map_of p1 ''format'' \<noteq> map_of p2 ''format''"
  shows "raw_cache_key path p1 \<noteq> raw_cache_key path p2
         \<and> (\<exists>url s1 s2.
               fetch_elexon (\<lambda>u ps. Inr (u, ps) :: exn + _) path (Some p1) = Inr (url, s1)
             \<and> fetch_elexon (\<lambda>u ps. Inr (u, ps) :: exn + _) path (Some p2) = Inr (url, s2)
             \<and> map_of s1 = map_of s2
             \<and> map_of s1 ''format'' = Some ''json''
             \<and> (\<forall>k. k \<noteq> ''format'' \<longrightarrow> map_of s1 k = map_of p1 k))
         \<and> (\<exists>url s. fetch_elexon (\<lambda>u ps. Inr (u, ps) :: exn + _) path params = Inr (url, s)
                    \<and> map_of s ''format'' = Some ''json'')
         \<and> (''format'' \<notin> fst ` set xs \<longrightarrow>
               fetch_elexon http_get path (Some (xs @ (''format'', v1) # ys))
             = fetch_elexon http_get path (Some (xs @ (''format'', v2) # ys)))
         \<and> (''format'' \<notin> fst ` set xs
              \<and> nonempty (fst (cache_get c now (raw_cache_key path (xs @ (''format'', v1) # ys)))) = None
              \<and> nonempty (fst (cache_get c now (raw_cache_key path (xs @ (''format'', v2) # ys)))) = None
              \<longrightarrow>
               fst (raw_passthrough http_get path (xs @ (''format'', v1) # ys) now t1 t2 c)
             = fst (raw_passthrough http_get path (xs @ (''format'', v2) # ys) now t1 t2 c))"
proof -
  have keys: "raw_cache_key path p1 \<noteq> raw_cache_key path p2"
  proof
    assume "raw_cache_key path p1 = raw_cache_key path p2"
    then have "sort p1 = sort p2" by (simp add: raw_cache_key_eq_iff)
    then have "set (sort p1) = set (sort p2)" by simp
    then have "set p1 = set p2" by simp
    then have "map_of p1 = map_of p2"
      using map_of_inject_set[OF d1 d2] by simp
    then show False using diff by simp
  qed
  have maps: "map_of (AList.update ''format'' ''json'' p1) = map_of (AList.update ''format'' ''json'' p2)"
  proof
    fix k show "map_of (AList.update ''format'' ''json'' p1) k = map_of (AList.update ''format'' ''json'' p2) k"
      using same by (cases "k = ''format''") (simp_all add: update_conv')
  qed
  have sent: "map_of (AList.update ''format'' ''json'' q) ''format'' = Some ''json''" for q :: "(string \<times> string) list"
    by (simp add: update_conv')
  have rest: "\<forall>k. k \<noteq> ''format'' \<longrightarrow> map_of (AList.update ''format'' ''json'' p1) k = map_of p1 k"
    by (simp add: update_conv')
  have pos: "''format'' \<notin> fst ` set xs \<longrightarrow>
               fetch_elexon http_get path (Some (xs @ (''format'', v1) # ys))
             = fetch_elexon http_get path (Some (xs @ (''format'', v2) # ys))"
    by (simp add: fetch_elexon_def update_at_key)
  have ep: "''format'' \<notin> fst ` set xs
              \<and> nonempty (fst (cache_get c now (raw_cache_key path (xs @ (''format'', v1) # ys)))) = None
              \<and> nonempty (fst (cache_get c now (raw_cache_key path (xs @ (''format'', v2) # ys)))) = None
              \<longrightarrow>
               fst (raw_passthrough http_get path (xs @ (''format'', v1) # ys) now t1 t2 c)
             = fst (raw_passthrough http_get path (xs @ (''format'', v2) # ys) now t1 t2 c)"
    using raw_passthrough_same_response by blast
  have sends: "\<exists>url s1 s2.
               fetch_elexon (\<lambda>u ps. Inr (u, ps) :: exn + _) path (Some p1) = Inr (url, s1)
             \<and> fetch_elexon (\<lambda>u ps. Inr (u, ps) :: exn + _) path (Some p2) = Inr (url, s2)
             \<and> map_of s1 = map_of s2
             \<and> map_of s1 ''format'' = Some ''json''
             \<and> (\<forall>k. k \<noteq> ''format'' \<longrightarrow> map_of s1 k = map_of p1 k)"
    using maps sent rest by (simp add: fetch_elexon_def)
  have always: "\<exists>url s. fetch_elexon (\<lambda>u ps. Inr (u, ps) :: exn + _) path params = Inr (url, s)
                    \<and> map_of s ''format'' = Some ''json''"
    using sent by (simp add: fetch_elexon_def)
  show ?thesis
    using keys sends always pos ep by blast
qed

text \<open>\<open>format=xml\<close> and \<open>format=csv\<close>: two keys, one upstream query.\<close>

theorem format_override_witness:
  "raw_cache_key ''datasets/BOAL'' [(''settlementDate'', ''2025-02-17''), (''format'', ''xml'')]
     \<noteq> raw_cache_key ''datasets/BOAL'' [(''settlementDate'', ''2025-02-17''), (''format'', ''csv'')]
   \<and> fetch_elexon (\<lambda>u ps. Inr (u, ps) :: exn + _) ''datasets/BOAL''
         (Some [(''settlementDate'', ''2025-02-17''), (''format'', ''xml'')])
     = Inr (''https://data.elexon.co.uk/bmrs/api/v1/datasets/BOAL'',
            [(''settlementDate'', ''2025-02-17''), (''format'', ''json'')])
   \<and> fetch_elexon (\<lambda>u ps. Inr (u, ps) :: exn + _) ''datasets/BOAL''
         (Some [(''settlementDate'', ''2025-02-17''), (''format'', ''csv'')])
     = Inr (''https://data.elexon.co.uk/bmrs/api/v1/datasets/BOAL'',
            [(''settlementDate'', ''2025-02-17''), (''format'', ''json'')])"
proof -
  have d1: "distinct (map fst [(''settlementDate'', ''2025-02-17''), (''format'', ''xml'')])" by simp
  have d2: "distinct (map fst [(''settlementDate'', ''2025-02-17''), (''format'', ''csv'')])" by simp
  have same: "\<forall>k. k \<noteq> ''format'' \<longrightarrow>
      map_of [(''settlementDate'', ''2025-02-17''), (''format'', ''xml'')] k
    = map_of [(''settlementDate'', ''2025-02-17''), (''format'', ''csv'')] k" by simp
  have diff: "map_of [(''settlementDate'', ''2025-02-17''), (''format'', ''xml'')] ''format''
    \<noteq> map_of [(''settlementDate'', ''2025-02-17''), (''format'', ''csv'')] ''format''" by simp
  show ?thesis
    using format_override[OF d1 d2 same diff, of "''datasets/BOAL''", THEN conjunct1]
    by (simp add: fetch_elexon_def ELEXON_BASE_def)
qed

section \<open>Fuel mix properties\<close>

lemma fuel_rows_total:
  "\<exists>rows. fuel_rows tot ds = Inr rows \<and> (tot = 0 \<longrightarrow> (\<forall>f \<in> set rows. percentage f = 0))"
proof (induction ds)
  case Nil
  show ?case by simp
next
  case (Cons d ds)
  then obtain rows where r: "fuel_rows tot ds = Inr rows"
    and z: "tot = 0 \<longrightarrow> (\<forall>f \<in> set rows. percentage f = 0)" by blast
  show ?case
  proof (cases "u_fuelType d")
    case None
    then show ?thesis using r z by simp
  next
    case (Some ft)
    then show ?thesis using r z by (simp add: pct_value)
  qed
qed

text \<open>
  C9 (zero-total guard). The fuel-mix derivation returns a result for every snapshot and
  total: no division by zero, nor any other exception. An empty or all-zero snapshot has
  total 0, and whenever the total is 0 every listed row has percentage 0 and so have
  \<open>renewable_pct\<close> and \<open>low_carbon_pct\<close>.
\<close>

theorem zero_total_guard:
  "(\<exists>r. fuel_mix_result date max_sp latest tot = Inr r)
   \<and> ((\<forall>d \<in> set latest. output_of d = 0) \<longrightarrow> py_sum (map output_of latest) = 0)
   \<and> (tot = 0 \<longrightarrow>
        (\<exists>rows. fuel_mix_fuels tot latest = Inr rows
           \<and> (\<forall>f \<in> set rows. percentage f = 0)
           \<and> fuel_mix_result date max_sp latest tot =
               Inr [(''settlement_date'', JStr date),
                    (''settlement_period'', JNum (of_int max_sp)),
                    (''total_mw'', JNum 0),
                    (''renewable_mw'', JNum (of_int (sum_mw renewable_types rows))),
                    (''renewable_pct'', JNum 0),
                    (''low_carbon_mw'', JNum (of_int (sum_mw low_carbon_types rows))),
                    (''low_carbon_pct'', JNum 0),
                    (''fuels'', JArr (map row_json rows))]))"
proof -
  obtain rows where r: "fuel_mix_fuels tot latest = Inr rows"
    and z: "tot = 0 \<longrightarrow> (\<forall>f \<in> set rows. percentage f = 0)"
    using fuel_rows_total[of tot "py_sorted_reverse sort_key_generation latest"]
    unfolding fuel_mix_fuels_def by blast
  have a: "\<exists>r. fuel_mix_result date max_sp latest tot = Inr r"
    by (simp add: fuel_mix_result_def r pct_value Let_def)
  have b: "(\<forall>d \<in> set latest. output_of d = 0) \<longrightarrow> py_sum (map output_of latest) = 0"
    by (simp add: py_sum_zeros)
  have rz: "round_half_even 0 = 0" by (simp add: round_half_even_def)
  have c: "tot = 0 \<longrightarrow>
        (\<exists>rows. fuel_mix_fuels tot latest = Inr rows
           \<and> (\<forall>f \<in> set rows. percentage f = 0)
           \<and> fuel_mix_result date max_sp latest tot =
               Inr [(''settlement_date'', JStr date),
                    (''settlement_period'', JNum (of_int max_sp)),
                    (''total_mw'', JNum 0),
                    (''renewable_mw'', JNum (of_int (sum_mw renewable_types rows))),
                    (''renewable_pct'', JNum 0),
                    (''low_carbon_mw'', JNum (of_int (sum_mw low_carbon_types rows))),
                    (''low_carbon_pct'', JNum 0),
                    (''fuels'', JArr (map row_json rows))])"
  proof
    assume t: "tot = 0"
    have "fuel_mix_result date max_sp latest tot =
               Inr [(''settlement_date'', JStr date),
                    (''settlement_period'', JNum (of_int max_sp)),
                    (''total_mw'', JNum 0),
                    (''renewable_mw'', JNum (of_int (sum_mw renewable_types rows))),
                    (''renewable_pct'', JNum 0),
                    (''low_carbon_mw'', JNum (of_int (sum_mw low_carbon_types rows))),
                    (''low_carbon_pct'', JNum 0),
                    (''fuels'', JArr (map row_json rows))]"
      using r unfolding t by (simp add: fuel_mix_result_def pct_value Let_def rz)
    then show "\<exists>rows. fuel_mix_fuels tot latest = Inr rows
           \<and> (\<forall>f \<in> set rows. percentage f = 0)
           \<and> fuel_mix_result date max_sp latest tot =
               Inr [(''settlement_date'', JStr date),
                    (''settlement_period'', JNum (of_int max_sp)),
                    (''total_mw'', JNum 0),
                    (''renewable_mw'', JNum (of_int (sum_mw renewable_types rows))),
                    (''renewable_pct'', JNum 0),
                    (''low_carbon_mw'', JNum (of_int (sum_mw low_carbon_types rows))),
                    (''low_carbon_pct'', JNum 0),
                    (''fuels'', JArr (map row_json rows))]"
      using r z t by blast
  qed
  show ?thesis using a b c by blast
qed

text \<open>
  An all-zero snapshot lists nothing and has both shares 0; with outputs 500 and -500 the
  total is 0 too and the one listed row has percentage 0.
\<close>

theorem zero_total_guard_witness:
  "py_sum (map output_of
      [no_keys\<lparr>u_settlementPeriod := Some 3, u_fuelType := Some ''CCGT'', u_generation := Some 0\<rparr>,
       no_keys\<lparr>u_settlementPeriod := Some 3, u_fuelType := Some ''WIND'', u_generation := Some 0\<rparr>]) = 0
   \<and> fuel_mix_result ''2025-02-17'' 3
      [no_keys\<lparr>u_settlementPeriod := Some 3, u_fuelType := Some ''CCGT'', u_generation := Some 0\<rparr>,
       no_keys\<lparr>u_settlementPeriod := Some 3, u_fuelType := Some ''WIND'', u_generation := Some 0\<rparr>] 0
     = Inr [(''settlement_date'', JStr ''2025-02-17''), (''settlement_period'', JNum 3),
            (''total_mw'', JNum 0), (''renewable_mw'', JNum 0), (''renewable_pct'', JNum 0),
            (''low_carbon_mw'', JNum 0), (''low_carbon_pct'', JNum 0), (''fuels'', JArr [])]
   \<and> fuel_mix_fuels 0
      [no_keys\<lparr>u_settlementPeriod := Some 3, u_fuelType := Some ''CCGT'', u_generation := Some 500\<rparr>,
       no_keys\<lparr>u_settlementPeriod := Some 3, u_fuelType := Some ''WIND'', u_generation := Some (- 500)\<rparr>]
     = Inr [\<lparr>fuel_type = ''CCGT'', label = ''Gas CCGT'', mw = 500, percentage = 0\<rparr>]"
  using zero_total_guard
    [of "''2025-02-17''" 3
        "[no_keys\<lparr>u_settlementPeriod := Some 3, u_fuelType := Some ''CCGT'', u_generation := Some 0\<rparr>,
          no_keys\<lparr>u_settlementPeriod := Some 3, u_fuelType := Some ''WIND'', u_generation := Some 0\<rparr>]" 0]
  by (simp add: fuel_mix_result_def fuel_mix_fuels_def py_sorted_reverse_def sort_key_generation_def
        output_of_def no_keys_def pct_value sum_mw_def dict_get_def fuel_labels_def py_sum_def)

lemma fuel_rows_spec:
  "fuel_rows tot ds = Inr (map (spec_row tot) (filter spec_listed ds))"
proof (induction ds)
  case Nil
  show ?case by simp
next
  case (Cons d ds)
  show ?case
  proof (cases "u_fuelType d")
    case None
    then show ?thesis using Cons by (simp add: spec_listed_def)
  next
    case (Some ft)
    then show ?thesis using Cons
      by (simp add: spec_listed_def spec_row_def pct_value Let_def)
  qed
qed

lemma mset_py_sorted_reverse: "mset (py_sorted_reverse f xs) = mset xs"
  by (simp add: py_sorted_reverse_def)

lemma sorted_py_sorted_reverse: "sorted (rev (map f (py_sorted_reverse f xs)))"
  by (simp add: py_sorted_reverse_def rev_map)

lemma sorted_rev_filter_map:
  assumes "sorted (rev (map f xs))"
      and "\<And>a b. f a \<le> f b \<Longrightarrow> g a \<le> g b"
  shows "sorted (rev (map g (filter P xs)))"
  using assms(1)
proof (induction xs)
  case Nil
  show ?case by simp
next
  case (Cons x xs)
  from Cons.prems have s: "sorted (rev (map f xs))" and le: "\<forall>y \<in> set xs. f y \<le> f x"
    by (auto simp: sorted_append)
  have "\<forall>y \<in> set (filter P xs). g y \<le> g x" using le assms(2) by auto
  then show ?case using Cons.IH[OF s] by (auto simp: sorted_append)
qed

text \<open>
  The fuel-mix listing. For every snapshot and total the \<open>fuels\<close> list is the rows of
  exactly the records with a fuel type and a positive rounded output, each with
  \<open>percentage = round(mw / total * 100, 1)\<close>, or 0 when the total is 0, whatever the
  records left out contribute to the total. When every record has a \<open>generation\<close> value
  the rows are in descending order of output.
\<close>

theorem fuel_mix_listing:
  "fuel_mix_fuels tot latest =
     Inr (map (spec_row tot) (filter spec_listed (py_sorted_reverse sort_key_generation latest)))
   \<and> mset (map (spec_row tot) (filter spec_listed (py_sorted_reverse sort_key_generation latest)))
       = image_mset (spec_row tot) (filter_mset spec_listed (mset latest))
   \<and> ((\<forall>d \<in> set latest. u_generation d \<noteq> None) \<longrightarrow>
        sorted (rev (map mw
          (map (spec_row tot) (filter spec_listed (py_sorted_reverse sort_key_generation latest))))))"
proof -
  let ?srt = "py_sorted_reverse sort_key_generation latest"
  have a: "fuel_mix_fuels tot latest = Inr (map (spec_row tot) (filter spec_listed ?srt))"
    by (simp add: fuel_mix_fuels_def fuel_rows_spec)
  have b: "mset (map (spec_row tot) (filter spec_listed ?srt))
       = image_mset (spec_row tot) (filter_mset spec_listed (mset latest))"
    by (simp add: mset_py_sorted_reverse)
  have c: "sorted (rev (map mw (map (spec_row tot) (filter spec_listed ?srt))))"
    if g: "\<forall>d \<in> set latest. u_generation d \<noteq> None"
  proof -
    have out: "output_of d = sort_key_generation d" if "d \<in> set latest" for d
      using g that by (auto simp: output_of_def sort_key_generation_def)
    have set_eq: "set ?srt = set latest"
      using mset_py_sorted_reverse[of sort_key_generation latest] by (metis set_mset_mset)
    have "sorted (rev (map sort_key_generation ?srt))"
      by (rule sorted_py_sorted_reverse)
    moreover have "map sort_key_generation ?srt = map output_of ?srt"
      using out set_eq by simp
    ultimately have "sorted (rev (map output_of ?srt))" by simp
    then have s: "sorted (rev (map (\<lambda>d. round_half_even (output_of d)) (filter spec_listed ?srt)))"
      by (rule sorted_rev_filter_map) (rule round_half_even_mono)
    have eq: "map mw (map (spec_row tot) xs) = map (\<lambda>d. round_half_even (output_of d)) xs" for xs
      by (induction xs) (simp_all add: spec_row_def Let_def)
    show ?thesis unfolding eq by (rule s)
  qed
  show ?thesis using a b c by blast
qed

theorem fuel_mix_listing_witness:
  "fuel_mix_fuels 1000
      [no_keys\<lparr>u_settlementPeriod := Some 3, u_fuelType := Some ''CCGT'', u_generation := Some 400\<rparr>,
       no_keys\<lparr>u_settlementPeriod := Some 3, u_fuelType := Some ''OIL'', u_generation := Some 0\<rparr>,
       no_keys\<lparr>u_settlementPeriod := Some 3, u_fuelType := Some ''WIND'', u_generation := Some 600\<rparr>]
     = Inr [\<lparr>fuel_type = ''WIND'', label = ''Wind'', mw = 600, percentage = 60\<rparr>,
            \<lparr>fuel_type = ''CCGT'', label = ''Gas CCGT'', mw = 400, percentage = 40\<rparr>]"
proof -
  have rows: "map (spec_row 1000) (filter spec_listed (py_sorted_reverse sort_key_generation
      [no_keys\<lparr>u_settlementPeriod := Some 3, u_fuelType := Some ''CCGT'', u_generation := Some 400\<rparr>,
       no_keys\<lparr>u_settlementPeriod := Some 3, u_fuelType := Some ''OIL'', u_generation := Some 0\<rparr>,
       no_keys\<lparr>u_settlementPeriod := Some 3, u_fuelType := Some ''WIND'', u_generation := Some 600\<rparr>]))
     = [\<lparr>fuel_type = ''WIND'', label = ''Wind'', mw = 600, percentage = 60\<rparr>,
        \<lparr>fuel_type = ''CCGT'', label = ''Gas CCGT'', mw = 400, percentage = 40\<rparr>]"
    by code_simp
  from fuel_mix_listing
    [of 1000
      "[no_keys\<lparr>u_settlementPeriod := Some 3, u_fuelType := Some ''CCGT'', u_generation := Some 400\<rparr>,
        no_keys\<lparr>u_settlementPeriod := Some 3, u_fuelType := Some ''OIL'', u_generation := Some 0\<rparr>,
        no_keys\<lparr>u_settlementPeriod := Some 3, u_fuelType := Some ''WIND'', u_generation := Some 600\<rparr>]",
     THEN conjunct1]
  show ?thesis by (simp only: rows)
qed

text \<open>
  C3 (fuel-mix derivation), the order of the list. The sort key is
  \<open>x.get("generation", 0)\<close>, while the output of a record falls back on \<open>quantity\<close>:
  \<open>d.get("generation", d.get("quantity", 0))\<close>. For records that carry their output
  under \<open>quantity\<close> every sort key is 0 and the list keeps the upstream order: here 400
  MW before 600 MW, not in descending order of output.
\<close>

theorem fuel_mix_quantity_order:
  "latest_snapshot
      [no_keys\<lparr>u_settlementPeriod := Some 1, u_fuelType := Some ''CCGT'', u_quantity := Some 400\<rparr>,
       no_keys\<lparr>u_settlementPeriod := Some 1, u_fuelType := Some ''WIND'', u_quantity := Some 600\<rparr>]
     = Inr (1,
        [no_keys\<lparr>u_settlementPeriod := Some 1, u_fuelType := Some ''CCGT'', u_quantity := Some 400\<rparr>,
         no_keys\<lparr>u_settlementPeriod := Some 1, u_fuelType := Some ''WIND'', u_quantity := Some 600\<rparr>],
        1000)
   \<and> fuel_mix_fuels 1000
      [no_keys\<lparr>u_settlementPeriod := Some 1, u_fuelType := Some ''CCGT'', u_quantity := Some 400\<rparr>,
       no_keys\<lparr>u_settlementPeriod := Some 1, u_fuelType := Some ''WIND'', u_quantity := Some 600\<rparr>]
     = Inr [\<lparr>fuel_type = ''CCGT'', label = ''Gas CCGT'', mw = 400, percentage = 40\<rparr>,
            \<lparr>fuel_type = ''WIND'', label = ''Wind'', mw = 600, percentage = 60\<rparr>]"
  by code_simp

section \<open>Summary properties\<close>

lemma periods_length: "periods ds = Inr sps \<Longrightarrow> length sps = length ds"
  by (induction ds arbitrary: sps) (auto split: option.splits sum.splits)

lemma periods_zip:
  "periods ds = Inr sps \<Longrightarrow> (sp, d) \<in> set (zip sps ds) \<Longrightarrow> u_settlementPeriod d = Some sp"
  by (induction ds arbitrary: sps) (auto split: option.splits sum.splits)

text \<open>
  C8 (summary price change), amended. When the price fetch returns and every record
  with a price carries a settlement period, the records with a non-null price are sorted
  by settlement period, ascending (a stable sort of the same records). With no such
  record the block adds nothing; with one, \<open>change_gbp\<close> is 0; with two or more,
  \<open>change_gbp\<close> is \<open>round(latest.price - previous.price, 2)\<close> for the last and the last
  but one of the sorted records: the float difference of the two prices, rounded to two
  decimals as \<open>round\<close> rounds a float.
\<close>

theorem summary_price_change:
  assumes fetch: "fetch_elexon http_get ''balancing/pricing/market-index''
                    (Some [(''settlementDate'', today rq)]) = Inr raw"
      and per: "periods (filter (\<lambda>d. u_price d \<noteq> None) (data_of raw)) = Inr sps"
  shows "\<exists>srt. srt = py_sorted fst (zip sps (filter (\<lambda>d. u_price d \<noteq> None) (data_of raw)))
           \<and> sorted (map fst srt)
           \<and> mset (map snd srt) = mset (filter (\<lambda>d. u_price d \<noteq> None) (data_of raw))
           \<and> (\<forall>sp d. (sp, d) \<in> set srt \<longrightarrow> u_settlementPeriod d = Some sp \<and> u_price d \<noteq> None)
           \<and> (srt = [] \<longrightarrow> summary_price http_get rq = Inr None)
           \<and> (\<forall>sp latest p. srt = [(sp, latest)] \<and> u_price latest = Some p \<longrightarrow>
                 summary_price http_get rq =
                   Inr (Some (JObj [(''gbp_per_mwh'', JNum (py_round 2 p)),
                                    (''settlement_period'', JNum (of_int sp)),
                                    (''change_gbp'', JNum 0)])))
           \<and> (\<forall>pre sp' prev sp latest p p'.
                 srt = pre @ [(sp', prev), (sp, latest)] \<and> u_price latest = Some p
                   \<and> u_price prev = Some p' \<longrightarrow>
                 summary_price http_get rq =
                   Inr (Some (JObj [(''gbp_per_mwh'', JNum (py_round 2 p)),
                                    (''settlement_period'', JNum (of_int sp)),
                                    (''change_gbp'', JNum (py_round 2 (fl (p - p'))))])))"
proof -
  let ?priced = "filter (\<lambda>d. u_price d \<noteq> None) (data_of raw)"
  define srt where "srt = py_sorted fst (zip sps ?priced)"
  have len: "length sps = length ?priced" using per by (rule periods_length)
  have s1: "sorted (map fst srt)" by (simp add: srt_def py_sorted_def)
  have "mset srt = mset (zip sps ?priced)" by (simp add: srt_def py_sorted_def)
  then have "mset (map snd srt) = mset (map snd (zip sps ?priced))"
    by (metis mset_map)
  then have s2: "mset (map snd srt) = mset ?priced" using len by simp
  have set_srt: "set srt = set (zip sps ?priced)" by (simp add: srt_def py_sorted_def)
  have s3: "\<forall>sp d. (sp, d) \<in> set srt \<longrightarrow> u_settlementPeriod d = Some sp \<and> u_price d \<noteq> None"
  proof (intro allI impI)
    fix sp d assume "(sp, d) \<in> set srt"
    then have m: "(sp, d) \<in> set (zip sps ?priced)" using set_srt by simp
    then have "d \<in> set ?priced" by (rule set_zip_rightD)
    then show "u_settlementPeriod d = Some sp \<and> u_price d \<noteq> None"
      using periods_zip[OF per m] by simp
  qed
  have body: "summary_price http_get rq =
      (case rev srt of
         [] \<Rightarrow> Inr None
       | (sp, latest) # rest \<Rightarrow>
           (let prev = (case rest of [] \<Rightarrow> latest | (sp', d') # rest' \<Rightarrow> d') in
            case price_item latest of
              Inl e \<Rightarrow> Inl e
            | Inr latest_price \<Rightarrow>
                (case price_item prev of
                   Inl e \<Rightarrow> Inl e
                 | Inr prev_price \<Rightarrow>
                     Inr (Some (JObj
                       [(''gbp_per_mwh'', JNum (py_round 2 latest_price)),
                        (''settlement_period'', JNum (of_int sp)),
                        (''change_gbp'',
                           JNum (py_round 2 (fl (latest_price - prev_price))))])))))"
    unfolding summary_price_def srt_def sorted_by_period_def
    by (simp only: fetch per sum.case)
  have s4: "srt = [] \<longrightarrow> summary_price http_get rq = Inr None"
    by (simp add: body)
  have s5: "\<forall>sp latest p. srt = [(sp, latest)] \<and> u_price latest = Some p \<longrightarrow>
                 summary_price http_get rq =
                   Inr (Some (JObj [(''gbp_per_mwh'', JNum (py_round 2 p)),
                                    (''settlement_period'', JNum (of_int sp)),
                                    (''change_gbp'', JNum 0)]))"
    by (simp add: body price_item_def py_round_zero)
  have s6: "\<forall>pre sp' prev sp latest p p'.
                 srt = pre @ [(sp', prev), (sp, latest)] \<and> u_price latest = Some p
                   \<and> u_price prev = Some p' \<longrightarrow>
                 summary_price http_get rq =
                   Inr (Some (JObj [(''gbp_per_mwh'', JNum (py_round 2 p)),
                                    (''settlement_period'', JNum (of_int sp)),
                                    (''change_gbp'', JNum (py_round 2 (fl (p - p'))))]))"
    by (simp add: body price_item_def)
  show ?thesis
    using s1 s2 s3 s4 s5 s6 unfolding srt_def by blast
qed

text \<open>
  C8 as claimed: \<open>change_gbp\<close> equals \<open>latest.price - previous.price\<close>. The code rounds
  the difference to two decimals: for the prices 45.126 (period 2) and 45.12 (period 1)
  the float difference is 0.006000000000000227 and \<open>change_gbp\<close> is the float 0.01.
\<close>

theorem summary_price_change_counterexample:
  "summary_price
     (\<lambda>url ps. Inr (Some [no_keys\<lparr>u_settlementPeriod := Some 2, u_price := Some (fl (45126 / 1000))\<rparr>,
                          no_keys\<lparr>u_settlementPeriod := Some 1, u_price := Some (fl (4512 / 100))\<rparr>]))
     example_request
     = Inr (Some (JObj [(''gbp_per_mwh'', JNum (fl (4513 / 100))), (''settlement_period'', JNum 2),
                        (''change_gbp'', JNum (fl (1 / 100)))]))
   \<and> fl (fl (45126 / 1000) - fl (4512 / 100)) = 211106232533 / 35184372088832
   \<and> fl (1 / 100) = 5764607523034235 / 576460752303423488
   \<and> fl (fl (45126 / 1000) - fl (4512 / 100)) \<noteq> fl (1 / 100)"
  by code_simp

text \<open>
  The witness has a record without a price in period 3: it is left out, the latest record
  is the one of period 2 and the previous one that of period 1.
\<close>

theorem summary_price_change_witness:
  "summary_price
     (\<lambda>url ps. Inr (Some [no_keys\<lparr>u_settlementPeriod := Some 2, u_price := Some (fl (45126 / 1000))\<rparr>,
                          no_keys\<lparr>u_settlementPeriod := Some 3\<rparr>,
                          no_keys\<lparr>u_settlementPeriod := Some 1, u_price := Some (fl (4512 / 100))\<rparr>]))
     example_request
     = Inr (Some (JObj [(''gbp_per_mwh'', JNum (py_round 2 (fl (45126 / 1000)))),
                        (''settlement_period'', JNum 2),
                        (''change_gbp'', JNum (py_round 2 (fl (fl (45126 / 1000) - fl (4512 / 100)))))]))"
proof -
  let ?up = "\<lambda>url ps. Inr (Some [no_keys\<lparr>u_settlementPeriod := Some 2, u_price := Some (fl (45126 / 1000))\<rparr>,
                          no_keys\<lparr>u_settlementPeriod := Some 3\<rparr>,
                          no_keys\<lparr>u_settlementPeriod := Some 1, u_price := Some (fl (4512 / 100))\<rparr>])
             :: exn + uresp"
  let ?raw = "Some [no_keys\<lparr>u_settlementPeriod := Some 2, u_price := Some (fl (45126 / 1000))\<rparr>,
               no_keys\<lparr>u_settlementPeriod := Some 3\<rparr>,
               no_keys\<lparr>u_settlementPeriod := Some 1, u_price := Some (fl (4512 / 100))\<rparr>]"
  have f: "fetch_elexon ?up ''balancing/pricing/market-index''
             (Some [(''settlementDate'', today example_request)]) = Inr ?raw"
    by (simp add: fetch_elexon_def)
  have p: "periods (filter (\<lambda>d. u_price d \<noteq> None) (data_of ?raw)) = Inr [2, 1]"
    by (simp add: data_of_def no_keys_def del: not_None_eq)
  have srt: "py_sorted fst (zip [2, 1 :: int] (filter (\<lambda>d. u_price d \<noteq> None) (data_of ?raw)))
      = [] @ [(1, no_keys\<lparr>u_settlementPeriod := Some 1, u_price := Some (fl (4512 / 100))\<rparr>),
              (2, no_keys\<lparr>u_settlementPeriod := Some 2, u_price := Some (fl (45126 / 1000))\<rparr>)]"
    by (simp add: data_of_def no_keys_def py_sorted_def del: not_None_eq)
  have a: "u_price (no_keys\<lparr>u_settlementPeriod := Some 2, u_price := Some (fl (45126 / 1000))\<rparr>)
             = Some (fl (45126 / 1000))"
    and b: "u_price (no_keys\<lparr>u_settlementPeriod := Some 1, u_price := Some (fl (4512 / 100))\<rparr>)
             = Some (fl (4512 / 100))"
    by simp_all
  from summary_price_change[OF f p] srt a b show ?thesis
    by (metis of_int_numeral)
qed

lemma summary_result_blocks:
  "summary_result http_get rq sp =
     (case run_blocks (summary_blocks http_get rq) ([(''settlement_period'', sp_json sp)], []) of
        (result, errors) \<Rightarrow>
          if errors = [] then result else AList.update ''_errors'' (JObj errors) result)"
  by (simp add: summary_result_def run_blocks_def summary_blocks_def)

lemma run_blocks_result:
  assumes "distinct (map fst bs)"
  shows "map_of (fst (run_blocks bs (r0, e0))) k =
           (case map_of bs k of Some (Inr (Some v)) \<Rightarrow> Some v | _ \<Rightarrow> map_of r0 k)"
  using assms
proof (induction bs arbitrary: r0 e0)
  case Nil
  show ?case by (simp add: run_blocks_def)
next
  case (Cons b bs)
  obtain k0 o0 where b: "b = (k0, o0)" by (cases b)
  obtain r1 e1 where a: "attempt k0 o0 (r0, e0) = (r1, e1)" by (cases "attempt k0 o0 (r0, e0)")
  have step: "run_blocks (b # bs) (r0, e0) = run_blocks bs (r1, e1)"
    by (simp add: run_blocks_def b a)
  have d: "distinct (map fst bs)" and n: "map_of bs k0 = None"
    using Cons.prems b by (auto simp: map_of_eq_None_iff)
  have r1: "map_of r1 k = (case o0 of Inr (Some v) \<Rightarrow> if k = k0 then Some v else map_of r0 k
                            | _ \<Rightarrow> map_of r0 k)"
    using a by (auto simp: attempt_def update_conv' split: sum.splits option.splits)
  show ?case
    unfolding step Cons.IH[OF d] r1 using n b
    by (auto split: sum.splits option.splits)
qed

lemma run_blocks_errors:
  assumes "distinct (map fst bs)"
  shows "map_of (snd (run_blocks bs (r0, e0))) k =
           (case map_of bs k of Some (Inl e) \<Rightarrow> Some (JStr (str_exn e)) | _ \<Rightarrow> map_of e0 k)"
  using assms
proof (induction bs arbitrary: r0 e0)
  case Nil
  show ?case by (simp add: run_blocks_def)
next
  case (Cons b bs)
  obtain k0 o0 where b: "b = (k0, o0)" by (cases b)
  obtain r1 e1 where a: "attempt k0 o0 (r0, e0) = (r1, e1)" by (cases "attempt k0 o0 (r0, e0)")
  have step: "run_blocks (b # bs) (r0, e0) = run_blocks bs (r1, e1)"
    by (simp add: run_blocks_def b a)
  have d: "distinct (map fst bs)" and n: "map_of bs k0 = None"
    using Cons.prems b by (auto simp: map_of_eq_None_iff)
  have e1: "map_of e1 k = (case o0 of Inl e \<Rightarrow> if k = k0 then Some (JStr (str_exn e)) else map_of e0 k
                            | _ \<Rightarrow> map_of e0 k)"
    using a by (auto simp: attempt_def update_conv' split: sum.splits option.splits)
  show ?case
    unfolding step Cons.IH[OF d] e1 using n b
    by (auto split: sum.splits option.splits)
qed

lemma run_blocks_no_errors:
  assumes "distinct (map fst bs)"
  shows "snd (run_blocks bs (r0, [])) = [] \<longleftrightarrow> (\<forall>k e. (k, Inl e) \<notin> set bs)"
proof -
  have "snd (run_blocks bs (r0, [])) = [] \<longleftrightarrow> (\<forall>k. map_of (snd (run_blocks bs (r0, []))) k = None)"
    by (metis map_of_eq_empty_iff)
  also have "\<dots> \<longleftrightarrow> (\<forall>k. case map_of bs k of Some (Inl e) \<Rightarrow> False | _ \<Rightarrow> True)"
    unfolding run_blocks_errors[OF assms] by (auto split: option.splits sum.splits)
  also have "\<dots> \<longleftrightarrow> (\<forall>k e. map_of bs k \<noteq> Some (Inl e))"
    by (auto split: option.splits sum.splits)
  also have "\<dots> \<longleftrightarrow> (\<forall>k e. (k, Inl e) \<notin> set bs)"
    using assms by simp
  finally show ?thesis .
qed

lemma summary_blocks_keys:
  "map fst (summary_blocks http_get rq) = [''generation'', ''demand'', ''price'', ''imbalance'', ''frequency'']"
  by (simp add: summary_blocks_def)

lemma summary_blocks_distinct: "distinct (map fst (summary_blocks http_get rq))"
  unfolding summary_blocks_keys by simp


text \<open>
  C2 (summary partial failure), amended. On a cache miss, for each of the five blocks
  (generation, demand, price, imbalance, frequency): a block that yields a value has it in
  the result under its key; a block that raises (an upstream error, a record without
  \<open>settlementPeriod\<close>) has no key in the result and its \<open>str(e)\<close> under its key in the
  \<open>_errors\<close> dict; a block whose data is empty has neither. No block changes what another
  block leaves. The result always has \<open>settlement_period\<close>, it has \<open>_errors\<close> exactly
  when some block raised, never a key \<open>errors\<close>, and it is cached under \<open>summary\<close> with
  a ttl of 60 seconds.
\<close>

theorem summary_partial_failure:
  assumes miss: "nonempty (fst (cache_get c now ''summary'')) = None"
      and sp: "current_settlement_period dt_now = Inr sp"
      and blk: "(key, outcome) \<in> set (summary_blocks http_get rq)"
  shows "summary http_get rq dt_now now t1 t2 c =
           (Inr (AList.update ''_cache'' (JStr ''miss'') (summary_result http_get rq sp), 200),
            cache_set c t1 t2 ''summary'' (summary_result http_get rq sp) 60)
         \<and> snd (summary http_get rq dt_now now t1 t2 c) ''summary'' =
             Some \<lparr>data = summary_result http_get rq sp, stored = t1, expires = t2 + 60\<rparr>
         \<and> map_of (summary_result http_get rq sp) ''settlement_period'' = Some (sp_json sp)
         \<and> (case outcome of
               Inr (Some v) \<Rightarrow> map_of (summary_result http_get rq sp) key = Some v
                 \<and> errors_of (summary_result http_get rq sp) key = None
             | Inr None \<Rightarrow> map_of (summary_result http_get rq sp) key = None
                 \<and> errors_of (summary_result http_get rq sp) key = None
             | Inl e \<Rightarrow> map_of (summary_result http_get rq sp) key = None
                 \<and> errors_of (summary_result http_get rq sp) key = Some (JStr (str_exn e)))
         \<and> (map_of (summary_result http_get rq sp) ''_errors'' \<noteq> None \<longleftrightarrow>
              (\<exists>k e. (k, Inl e) \<in> set (summary_blocks http_get rq)))
         \<and> map_of (summary_result http_get rq sp) ''errors'' = None"
proof -
  let ?bs = "summary_blocks http_get rq"
  let ?init = "([(''settlement_period'', sp_json sp)], []) :: jobj \<times> jobj"
  define R where "R = fst (run_blocks ?bs ?init)"
  define E where "E = snd (run_blocks ?bs ?init)"
  have res: "summary_result http_get rq sp = (if E = [] then R else AList.update ''_errors'' (JObj E) R)"
    by (simp add: summary_result_blocks R_def E_def split: prod.splits)
  note dist = summary_blocks_distinct[of http_get rq]
  have mo: "map_of ?bs key = Some outcome" using blk dist by simp
  have keys: "key \<in> {''generation'', ''demand'', ''price'', ''imbalance'', ''frequency''}"
  proof -
    have "key \<in> set (map fst ?bs)" using blk by force
    then show ?thesis unfolding summary_blocks_keys by simp
  qed
  have R: "map_of R k = (case map_of ?bs k of Some (Inr (Some v)) \<Rightarrow> Some v
                          | _ \<Rightarrow> map_of [(''settlement_period'', sp_json sp)] k)" for k
    unfolding R_def by (rule run_blocks_result[OF dist])
  have E: "map_of E k = (case map_of ?bs k of Some (Inl e) \<Rightarrow> Some (JStr (str_exn e)) | _ \<Rightarrow> None)" for k
    unfolding E_def run_blocks_errors[OF dist] by (simp split: option.splits sum.splits)
  have Enil: "E = [] \<longleftrightarrow> (\<forall>k e. (k, Inl e) \<notin> set ?bs)"
    unfolding E_def by (rule run_blocks_no_errors[OF dist])
  have none: "map_of ?bs k = None" if "k \<notin> {''generation'', ''demand'', ''price'', ''imbalance'', ''frequency''}" for k
    using that by (simp add: summary_blocks_def)
  have R_sp: "map_of R ''settlement_period'' = Some (sp_json sp)"
    unfolding R by (simp add: none)
  have R_err: "map_of R ''_errors'' = None" "map_of R ''errors'' = None"
    unfolding R by (simp_all add: none)
  have res_of: "map_of (summary_result http_get rq sp) k =
      (if E \<noteq> [] \<and> k = ''_errors'' then Some (JObj E) else map_of R k)" for k
    by (simp add: res update_conv')
  have key_ne: "key \<noteq> ''_errors''" "key \<noteq> ''settlement_period''" using keys by auto
  have err_of: "errors_of (summary_result http_get rq sp) k = map_of E k" for k
  proof (cases "E = []")
    case True
    then show ?thesis by (simp add: errors_of_def res_of R_err)
  next
    case False
    then show ?thesis by (simp add: errors_of_def res_of)
  qed
  have c1: "summary http_get rq dt_now now t1 t2 c =
           (Inr (AList.update ''_cache'' (JStr ''miss'') (summary_result http_get rq sp), 200),
            cache_set c t1 t2 ''summary'' (summary_result http_get rq sp) 60)"
  proof -
    have cg: "cache_get c now ''summary'' = (fst (cache_get c now ''summary''), c)"
      by (rule cache_get_pair)
    show ?thesis
      unfolding summary_def by (subst cg) (simp add: miss sp Let_def)
  qed
  have c2: "snd (summary http_get rq dt_now now t1 t2 c) ''summary'' =
             Some \<lparr>data = summary_result http_get rq sp, stored = t1, expires = t2 + 60\<rparr>"
    by (simp add: c1 cache_set_def)
  have c3: "map_of (summary_result http_get rq sp) ''settlement_period'' = Some (sp_json sp)"
    by (simp add: res_of R_sp)
  have c4: "(case outcome of
               Inr (Some v) \<Rightarrow> map_of (summary_result http_get rq sp) key = Some v
                 \<and> errors_of (summary_result http_get rq sp) key = None
             | Inr None \<Rightarrow> map_of (summary_result http_get rq sp) key = None
                 \<and> errors_of (summary_result http_get rq sp) key = None
             | Inl e \<Rightarrow> map_of (summary_result http_get rq sp) key = None
                 \<and> errors_of (summary_result http_get rq sp) key = Some (JStr (str_exn e)))"
    using key_ne by (simp add: res_of err_of R E mo split: sum.splits option.splits)
  have c5: "map_of (summary_result http_get rq sp) ''_errors'' \<noteq> None \<longleftrightarrow>
              (\<exists>k e. (k, Inl e) \<in> set ?bs)"
    using Enil by (auto simp: res_of R_err)
  have c6: "map_of (summary_result http_get rq sp) ''errors'' = None"
    by (simp add: res_of R_err)
  show ?thesis using c1 c2 c3 c4 c5 c6 by blast
qed


lemma example_period_value: "current_settlement_period example_now = Inr example_period"
  by (simp add: current_settlement_period_def example_now_def example_period_def replace_fields_def
        add_minutes_def MAXORDINAL_def)

lemma url_simps:
  "fetch_elexon h ''generation/outturn/halfHourly'' p
     = h (ELEXON_BASE @ ''/generation/outturn/halfHourly'') (AList.update ''format'' ''json'' (case p of None \<Rightarrow> [] | Some x \<Rightarrow> x))"
  "fetch_elexon h ''demand/outturn'' p
     = h (ELEXON_BASE @ ''/demand/outturn'') (AList.update ''format'' ''json'' (case p of None \<Rightarrow> [] | Some x \<Rightarrow> x))"
  "fetch_elexon h ''balancing/pricing/market-index'' p
     = h (ELEXON_BASE @ ''/balancing/pricing/market-index'') (AList.update ''format'' ''json'' (case p of None \<Rightarrow> [] | Some x \<Rightarrow> x))"
  "fetch_elexon h ''datasets/IMBALNGC'' p
     = h (ELEXON_BASE @ ''/datasets/IMBALNGC'') (AList.update ''format'' ''json'' (case p of None \<Rightarrow> [] | Some x \<Rightarrow> x))"
  "fetch_elexon h ''datasets/FREQ'' p
     = h (ELEXON_BASE @ ''/datasets/FREQ'') (AList.update ''format'' ''json'' (case p of None \<Rightarrow> [] | Some x \<Rightarrow> x))"
  by (simp_all add: fetch_elexon_def)

text \<open>
  C2 as claimed: missing data is recorded in an \<open>errors\<close> map. When every dataset comes
  back empty the result has \<open>settlement_period\<close> alone: no sub-result and nothing
  recorded. When every fetch fails the failures are under \<open>_errors\<close>, not \<open>errors\<close>.
\<close>

theorem summary_missing_data_counterexample:
  "fst (summary (\<lambda>url ps. Inr (Some [])) example_request example_now 0 1 1 Map.empty)
     = Inr ([(''settlement_period'', sp_json example_period), (''_cache'', JStr ''miss'')], 200)
   \<and> fst (summary (\<lambda>url ps. Inl (RequestException ''timed out'')) example_request example_now 0 1 1
          Map.empty)
     = Inr ([(''settlement_period'', sp_json example_period),
             (''_errors'', JObj [(''generation'', JStr ''timed out''), (''demand'', JStr ''timed out''),
                                (''price'', JStr ''timed out''), (''imbalance'', JStr ''timed out''),
                                (''frequency'', JStr ''timed out'')]),
             (''_cache'', JStr ''miss'')], 200)"
  by (simp add: summary_def cache_get_def nonempty_def example_period_value summary_result_def
        attempt_def summary_generation_def summary_demand_def summary_price_def
        summary_imbalance_def summary_frequency_def fetch_elexon_def data_of_def
        sorted_by_period_def py_sorted_def)

text \<open>The five blocks on the example upstream.\<close>

lemma example_blocks:
  "summary_generation example_upstream example_request =
     Inr (Some (JObj [(''total_mw'', JNum 600), (''fuels'', JObj [(''WIND'', JNum 600)]),
                      (''wind_mw'', JNum 600), (''solar_mw'', JNum 0), (''nuclear_mw'', JNum 0),
                      (''wind_pct'', JNum 100), (''solar_pct'', JNum 0)]))"
  "summary_demand example_upstream example_request =
     Inr (Some (JObj [(''mw'', JNum 30000), (''settlement_period'', JNum 22)]))"
  "summary_price example_upstream example_request = Inl (RequestException ''timed out'')"
  "summary_imbalance example_upstream example_request =
     Inr (Some (JObj [(''mw'', JNum 12), (''settlement_period'', JNum 22)]))"
  "summary_frequency example_upstream example_request =
     Inr (Some (JObj [(''hz'', JNum 50), (''nominal_hz'', JNum 50), (''deviation'', JNum 0),
                      (''status'', JStr ''normal''), (''published_at'', JStr ''2025-02-17T10:59:30Z'')]))"
  by code_simp+


text \<open>
  The price fetch times out, the other four succeed: four sub-results, one entry in
  \<open>_errors\<close>, cached until 62 when \<open>cache_set\<close> reads the clock at 1 and 2.
\<close>

theorem summary_partial_failure_witness:
  "fst (summary example_upstream example_request example_now 0 1 2 Map.empty) =
     Inr ([(''settlement_period'', sp_json example_period),
           (''generation'',
              JObj [(''total_mw'', JNum 600), (''fuels'', JObj [(''WIND'', JNum 600)]),
                    (''wind_mw'', JNum 600), (''solar_mw'', JNum 0), (''nuclear_mw'', JNum 0),
                    (''wind_pct'', JNum 100), (''solar_pct'', JNum 0)]),
           (''demand'', JObj [(''mw'', JNum 30000), (''settlement_period'', JNum 22)]),
           (''imbalance'', JObj [(''mw'', JNum 12), (''settlement_period'', JNum 22)]),
           (''frequency'',
              JObj [(''hz'', JNum 50), (''nominal_hz'', JNum 50), (''deviation'', JNum 0),
                    (''status'', JStr ''normal''), (''published_at'', JStr ''2025-02-17T10:59:30Z'')]),
           (''_errors'', JObj [(''price'', JStr ''timed out'')]),
           (''_cache'', JStr ''miss'')], 200)
   \<and> map_option expires (snd (summary example_upstream example_request example_now 0 1 2 Map.empty)
        ''summary'') = Some 62
   \<and> errors_of (summary_result example_upstream example_request example_period) ''price''
        = Some (JStr ''timed out'')"
proof -
  have miss: "nonempty (fst (cache_get (Map.empty :: jobj cache) 0 ''summary'')) = None"
    by (simp add: cache_get_def nonempty_def)
  have blk: "(''price'', Inl (RequestException ''timed out''))
               \<in> set (summary_blocks example_upstream example_request)"
    by (simp add: summary_blocks_def example_blocks)
  have res: "summary_result example_upstream example_request example_period =
      [(''settlement_period'', sp_json example_period),
           (''generation'',
              JObj [(''total_mw'', JNum 600), (''fuels'', JObj [(''WIND'', JNum 600)]),
                    (''wind_mw'', JNum 600), (''solar_mw'', JNum 0), (''nuclear_mw'', JNum 0),
                    (''wind_pct'', JNum 100), (''solar_pct'', JNum 0)]),
           (''demand'', JObj [(''mw'', JNum 30000), (''settlement_period'', JNum 22)]),
           (''imbalance'', JObj [(''mw'', JNum 12), (''settlement_period'', JNum 22)]),
           (''frequency'',
              JObj [(''hz'', JNum 50), (''nominal_hz'', JNum 50), (''deviation'', JNum 0),
                    (''status'', JStr ''normal''), (''published_at'', JStr ''2025-02-17T10:59:30Z'')]),
           (''_errors'', JObj [(''price'', JStr ''timed out'')])]"
    by (simp add: summary_result_def example_blocks attempt_def)
  note t = summary_partial_failure[OF miss example_period_value blk, of 1 2]
  have a: "summary example_upstream example_request example_now 0 1 2 Map.empty =
           (Inr (AList.update ''_cache'' (JStr ''miss'')
                   (summary_result example_upstream example_request example_period), 200),
            cache_set Map.empty 1 2 ''summary''
              (summary_result example_upstream example_request example_period) 60)"
    using t by (rule conjunct1)
  have b: "errors_of (summary_result example_upstream example_request example_period) ''price''
        = Some (JStr ''timed out'')"
    using t by simp
  show ?thesis
    unfolding a using b by (simp add: res cache_set_def)
qed

section \<open>Error responses\<close>

lemma proxy_route_errors:
  assumes miss: "fst (cache_get c now (kf rq)) = None"
  shows "proxy_route kf ttl fn (\<lambda>url ps. Inl (HTTPError code msg)) rq now t1 t2 c =
           (Inr ([(''error'', JStr msg), (''status'', JNum (of_int code))], 502), c)"
    and "proxy_route kf ttl fn (\<lambda>url ps. Inl (RequestException msg)) rq now t1 t2 c =
           (Inr ([(''error'', JStr ''Upstream unavailable''), (''detail'', JStr msg)], 503), c)"
  by (simp_all add: proxy_route_def cache_get_miss[OF miss] fetch_elexon_def split: prod.splits)

lemma falsy_cached:
  assumes "nonempty (fst (cache_get c now k)) = None"
  obtains cached where "cache_get c now k = (cached, c)" and "nonempty cached = None"
  using cache_get_pair[of c now k] assms by blast

text \<open>
  C6 (upstream error status mapping), amended. Each endpoint, when the request misses
  the cache under its own key, whatever the cache holds under other keys:
  the five routes behind \<open>proxy_route\<close> (a miss is \<open>cache_get\<close> returning \<open>None\<close>) answer
  an upstream HTTP failure with 502 and \<open>{error, status}\<close>, and any other request failure
  with 503 and \<open>{error, detail}\<close>;
  the raw passthrough (a miss is \<open>cache_get\<close> returning \<open>None\<close> or an empty dict) answers
  an HTTP failure with 502 and \<open>{error}\<close>, and any other exception with 503 and
  \<open>{error}\<close>;
  \<open>generation_latest\<close> and \<open>fuel_mix_latest\<close> (a miss likewise) answer every fetch
  failure, an HTTP failure included, with 503 and \<open>{error}\<close>, and missing or empty data
  with 404 and \<open>{error}\<close>.
  The cache is left as it was.
\<close>

theorem upstream_error_mapping:
  "(\<forall>(kf, route) \<in> set proxied_routes.
      fst (cache_get c now (kf rq)) = None \<longrightarrow>
        route (\<lambda>url ps. Inl (HTTPError code msg)) rq now t1 t2 c =
          (Inr ([(''error'', JStr msg), (''status'', JNum (of_int code))], 502), c)
        \<and> route (\<lambda>url ps. Inl (RequestException msg)) rq now t1 t2 c =
          (Inr ([(''error'', JStr ''Upstream unavailable''), (''detail'', JStr msg)], 503), c))
   \<and> (nonempty (fst (cache_get c now (raw_cache_key path params))) = None \<longrightarrow>
        raw_passthrough (\<lambda>url ps. Inl (HTTPError code msg)) path params now t1 t2 c =
          (([(''error'', JStr msg)], 502), c)
        \<and> ((\<forall>code' msg'. e \<noteq> HTTPError code' msg') \<longrightarrow>
             raw_passthrough (\<lambda>url ps. Inl e) path params now t1 t2 c =
               (([(''error'', JStr (str_exn e))], 503), c)))
   \<and> (nonempty (fst (cache_get c now ''generation_latest'')) = None \<longrightarrow>
        generation_latest (\<lambda>url ps. Inl e) rq now t1 t2 c =
          (([(''error'', JStr (str_exn e))], 503), c)
        \<and> (data_of raw = [] \<longrightarrow>
             generation_latest (\<lambda>url ps. Inr raw) rq now t1 t2 c =
               (([(''error'', JStr ''No data available'')], 404), c)))
   \<and> (nonempty (fst (cache_get c now ''fuel_mix_latest'')) = None \<longrightarrow>
        fuel_mix_latest (\<lambda>url ps. Inl e) rq now t1 t2 c =
          (([(''error'', JStr (str_exn e))], 503), c)
        \<and> (data_of raw = [] \<longrightarrow>
             fuel_mix_latest (\<lambda>url ps. Inr raw) rq now t1 t2 c =
               (([(''error'', JStr ''No data'')], 404), c)))"
proof -
  have a: "\<forall>(kf, route) \<in> set proxied_routes.
      fst (cache_get c now (kf rq)) = None \<longrightarrow>
        route (\<lambda>url ps. Inl (HTTPError code msg)) rq now t1 t2 c =
          (Inr ([(''error'', JStr msg), (''status'', JNum (of_int code))], 502), c)
        \<and> route (\<lambda>url ps. Inl (RequestException msg)) rq now t1 t2 c =
          (Inr ([(''error'', JStr ''Upstream unavailable''), (''detail'', JStr msg)], 503), c)"
    by (simp add: proxied_routes_def generation_def demand_def price_def imbalance_def
          frequency_def proxy_route_errors)
  have b: "raw_passthrough (\<lambda>url ps. Inl (HTTPError code msg)) path params now t1 t2 c =
             (([(''error'', JStr msg)], 502), c)"
    if m: "nonempty (fst (cache_get c now (raw_cache_key path params))) = None"
  proof -
    from m obtain cached where cg: "cache_get c now (raw_cache_key path params) = (cached, c)"
      and ne: "nonempty cached = None"
      by (rule falsy_cached)
    show ?thesis
      by (simp add: raw_passthrough_def Let_def cg ne fetch_elexon_def)
  qed
  have b': "raw_passthrough (\<lambda>url ps. Inl e) path params now t1 t2 c =
                (([(''error'', JStr (str_exn e))], 503), c)"
    if m: "nonempty (fst (cache_get c now (raw_cache_key path params))) = None"
      and h: "\<forall>code' msg'. e \<noteq> HTTPError code' msg'"
  proof -
    from m obtain cached where cg: "cache_get c now (raw_cache_key path params) = (cached, c)"
      and ne: "nonempty cached = None"
      by (rule falsy_cached)
    show ?thesis
      using h by (cases e) (simp_all add: raw_passthrough_def Let_def cg ne fetch_elexon_def)
  qed
  have d: "generation_latest (\<lambda>url ps. Inl e) rq now t1 t2 c =
             (([(''error'', JStr (str_exn e))], 503), c)"
    if m: "nonempty (fst (cache_get c now ''generation_latest'')) = None"
  proof -
    from m obtain cached where cg: "cache_get c now ''generation_latest'' = (cached, c)"
      and ne: "nonempty cached = None"
      by (rule falsy_cached)
    show ?thesis
      by (simp add: generation_latest_def generation_latest_try_def Let_def cg ne fetch_elexon_def)
  qed
  have d': "generation_latest (\<lambda>url ps. Inr raw) rq now t1 t2 c =
                (([(''error'', JStr ''No data available'')], 404), c)"
    if m: "nonempty (fst (cache_get c now ''generation_latest'')) = None"
      and h: "data_of raw = []"
  proof -
    from m obtain cached where cg: "cache_get c now ''generation_latest'' = (cached, c)"
      and ne: "nonempty cached = None"
      by (rule falsy_cached)
    show ?thesis
      by (simp add: generation_latest_def generation_latest_try_def Let_def cg ne fetch_elexon_def h)
  qed
  have f: "fuel_mix_latest (\<lambda>url ps. Inl e) rq now t1 t2 c =
             (([(''error'', JStr (str_exn e))], 503), c)"
    if m: "nonempty (fst (cache_get c now ''fuel_mix_latest'')) = None"
  proof -
    from m obtain cached where cg: "cache_get c now ''fuel_mix_latest'' = (cached, c)"
      and ne: "nonempty cached = None"
      by (rule falsy_cached)
    show ?thesis
      by (simp add: fuel_mix_latest_def fuel_mix_latest_try_def Let_def cg ne fetch_elexon_def)
  qed
  have f': "fuel_mix_latest (\<lambda>url ps. Inr raw) rq now t1 t2 c =
                (([(''error'', JStr ''No data'')], 404), c)"
    if m: "nonempty (fst (cache_get c now ''fuel_mix_latest'')) = None"
      and h: "data_of raw = []"
  proof -
    from m obtain cached where cg: "cache_get c now ''fuel_mix_latest'' = (cached, c)"
      and ne: "nonempty cached = None"
      by (rule falsy_cached)
    show ?thesis
      by (simp add: fuel_mix_latest_def fuel_mix_latest_try_def Let_def cg ne fetch_elexon_def h)
  qed
  show ?thesis using a b b' d d' f f' by blast
qed

text \<open>
  C6 as claimed, for every proxied endpoint: on an upstream HTTP failure
  \<open>generation_latest\<close> answers 503 with \<open>{error}\<close>, the raw passthrough answers 502
  with \<open>{error}\<close> and no \<open>status\<close>; on a timeout the raw passthrough answers 503 with
  \<open>{error}\<close> and no \<open>detail\<close>.
\<close>

theorem upstream_error_mapping_counterexample:
  "fst (generation_latest (\<lambda>url ps. Inl (HTTPError 500 ''500 Server Error'')) example_request
          0 1 1 Map.empty)
     = ([(''error'', JStr ''500 Server Error'')], 503)
   \<and> fst (raw_passthrough (\<lambda>url ps. Inl (HTTPError 404 ''404 Client Error'')) ''datasets/BOAL'' []
          0 1 1 Map.empty)
     = ([(''error'', JStr ''404 Client Error'')], 502)
   \<and> fst (raw_passthrough (\<lambda>url ps. Inl (RequestException ''timed out'')) ''datasets/BOAL'' []
          0 1 1 Map.empty)
     = ([(''error'', JStr ''timed out'')], 503)"
  by (simp add: generation_latest_def generation_latest_try_def raw_passthrough_def cache_get_def
        nonempty_def fetch_elexon_def)

text \<open>
  The witness reads the example cache at 10. The generation route has no entry and the
  frequency route an expired one: both miss and answer the upstream failure, while the
  demand route, whose entry is fresh, answers from the cache. \<open>fuel_mix_latest\<close> has no
  entry and answers upstream data without records with 404.
\<close>

theorem upstream_error_mapping_witness:
  "generation (\<lambda>url ps. Inl (HTTPError 500 ''500 Server Error'')) example_request 10 11 11
       example_cache
     = (Inr ([(''error'', JStr ''500 Server Error''), (''status'', JNum 500)], 502), example_cache)
   \<and> frequency (\<lambda>url ps. Inl (RequestException ''timed out'')) example_request 10 11 11
       example_cache
     = (Inr ([(''error'', JStr ''Upstream unavailable''), (''detail'', JStr ''timed out'')], 503),
        example_cache)
   \<and> fuel_mix_latest (\<lambda>url ps. Inr (Some [])) example_request 10 11 11 example_cache
     = (([(''error'', JStr ''No data'')], 404), example_cache)
   \<and> fst (demand (\<lambda>url ps. Inl (HTTPError 500 ''500 Server Error'')) example_request 10 11 11
       example_cache)
     = Inr ([(''data'', JArr []), (''_cache'', JStr ''hit''), (''_key'', JStr ''demand:2025-02-17'')],
            200)"
proof -
  have g: "fst (cache_get example_cache 10 (generation_key example_request)) = None"
    by (simp add: cache_get_def example_cache_def generation_key_def example_request_def
          dict_get_def)
  have f: "fst (cache_get example_cache 10 (frequency_key example_request)) = None"
    by (simp add: cache_get_def example_cache_def frequency_key_def)
  have m: "nonempty (fst (cache_get example_cache 10 ''fuel_mix_latest'')) = None"
    by (simp add: cache_get_def example_cache_def nonempty_def)
  have e: "data_of (Some []) = []"
    by (simp add: data_of_def)
  have gm: "(generation_key, generation) \<in> set proxied_routes"
    and fm: "(frequency_key, frequency) \<in> set proxied_routes"
    by (simp_all add: proxied_routes_def)
  note t = upstream_error_mapping[of example_cache 10 example_request 500 "''500 Server Error''"
      11 11 _ _ _ "Some []"]
  note t' = upstream_error_mapping[of example_cache 10 example_request _ "''timed out''" 11 11]
  have a: "generation (\<lambda>url ps. Inl (HTTPError 500 ''500 Server Error'')) example_request 10 11 11
       example_cache
     = (Inr ([(''error'', JStr ''500 Server Error''), (''status'', JNum 500)], 502), example_cache)"
    using t[THEN conjunct1] gm g by fastforce
  have b: "frequency (\<lambda>url ps. Inl (RequestException ''timed out'')) example_request 10 11 11
       example_cache
     = (Inr ([(''error'', JStr ''Upstream unavailable''), (''detail'', JStr ''timed out'')], 503),
        example_cache)"
    using t'[THEN conjunct1] fm f by fastforce
  have c: "fuel_mix_latest (\<lambda>url ps. Inr (Some [])) example_request 10 11 11 example_cache
     = (([(''error'', JStr ''No data'')], 404), example_cache)"
    using t[THEN conjunct2, THEN conjunct2, THEN conjunct2] m e by blast
  have d: "fst (demand (\<lambda>url ps. Inl (HTTPError 500 ''500 Server Error'')) example_request 10 11 11
       example_cache)
     = Inr ([(''data'', JArr []), (''_cache'', JStr ''hit''), (''_key'', JStr ''demand:2025-02-17'')],
            200)"
    by (simp add: demand_def proxy_route_def demand_key_def example_request_def dict_get_def
          cache_get_def example_cache_def Let_def)
  show ?thesis using a b c d by blast
qed

end
